theory Spec2Isabelle
  imports Complex_Main
begin

section \<open>Schema: enumerations and rows\<close>

text \<open>
  The enumerations of \<^verbatim>\<open>prisma/migrations/.../migration.sql\<close>. Payment and transaction
  statuses carry a prefix, since the three enumerations share member names.
\<close>

datatype OrderStatus =
    PENDING_PAYMENT | PAYMENT_PROCESSING | PAYMENT_COMPLETED | PAYMENT_FAILED
  | BLOCKCHAIN_PENDING | BLOCKCHAIN_PROCESSING | BLOCKCHAIN_CONFIRMED | BLOCKCHAIN_FAILED
  | COMPLETED | CANCELLED | REFUNDED

datatype PaymentStatus =
  PAY_PENDING | PAY_PROCESSING | PAY_SUCCEEDED | PAY_FAILED | PAY_CANCELLED | PAY_REFUNDED

datatype TransactionStatus =
  TX_PENDING | TX_SUBMITTED | TX_CONFIRMING | TX_CONFIRMED | TX_FAILED | TX_RETRYING

datatype NetworkType = TESTNET | MAINNET

datatype PlanStatus = AVAILABLE | UNAVAILABLE | DEPRECATED

text \<open>Identifiers are opaque strings; a \<^verbatim>\<open>Date\<close> is its millisecond count; a JSON
  column holds a JSON value.\<close>

type_synonym ident = string
type_synonym time = int

datatype json = JNull | JBool bool | JNumber int | JString string | JObject "(string \<times> json) list"

record user =
  u_id :: ident
  u_email :: string
  u_name :: "string option"
  u_walletAddress :: "string option"
  u_stripeCustomerId :: "string option"

record provider =
  pr_id :: ident
  pr_name :: string
  pr_slug :: string
  pr_network :: NetworkType
  pr_chainId :: "string option"

record storage_plan =
  pl_id :: ident
  pl_providerId :: ident
  pl_name :: string
  pl_storageSizeGb :: real
  pl_storageSizeBytes :: int
  pl_durationDays :: int
  pl_priceUsdCents :: int
  pl_status :: PlanStatus
  pl_isActive :: bool

record order =
  o_id :: ident
  o_orderNumber :: string
  o_userId :: ident
  o_providerId :: ident
  o_planId :: ident
  o_storageSizeGb :: real
  o_durationDays :: int
  o_priceUsdCents :: int
  o_storageId :: "string option"
  o_storageEndpoint :: "string option"
  o_storageMetadata :: "json option"
  o_status :: OrderStatus
  o_statusMessage :: "string option"
  o_idempotencyKey :: "string option"
  o_paidAt :: "time option"
  o_allocatedAt :: "time option"
  o_expiresAt :: "time option"

record payment =
  p_id :: ident
  p_orderId :: ident
  p_userId :: ident
  p_stripePaymentIntentId :: "string option"
  p_stripeSessionId :: "string option"
  p_amountCents :: int
  p_currency :: string
  p_status :: PaymentStatus
  p_statusMessage :: "string option"
  p_metadata :: json
  p_idempotencyKey :: "string option"
  p_processedAt :: "time option"

record blockchain_transaction =
  t_id :: ident
  t_orderId :: ident
  t_providerId :: ident
  t_txHash :: "string option"
  t_network :: NetworkType
  t_chainId :: "string option"
  t_fromAddress :: "string option"
  t_toAddress :: "string option"
  t_gasLimit :: "string option"
  t_gasPrice :: "string option"
  t_gasUsed :: "string option"
  t_value :: "string option"
  t_data :: "string option"
  t_nonce :: "int option"
  t_status :: TransactionStatus
  t_statusMessage :: "string option"
  t_confirmations :: int
  t_retryCount :: int
  t_maxRetries :: int
  t_lastRetryAt :: "time option"
  t_blockNumber :: "int option"
  t_blockHash :: "string option"
  t_rawResponse :: "json option"
  t_submittedAt :: "time option"
  t_confirmedAt :: "time option"

section \<open>Adapter contract, exceptions and service results\<close>

text \<open>\<^verbatim>\<open>IStorageTransactionParams\<close>, \<^verbatim>\<open>ITransactionResult\<close> and
  \<^verbatim>\<open>ITransactionStatusResult\<close>; an optional member is an \<open>option\<close>.\<close>

record tx_params =
  tp_orderId :: ident
  tp_planId :: ident
  tp_storageSizeBytes :: int
  tp_durationDays :: int
  tp_userWalletAddress :: "string option"

record tx_result =
  r_success :: bool
  r_txHash :: "string option"
  r_status :: TransactionStatus
  r_fromAddress :: "string option"
  r_toAddress :: "string option"
  r_gasLimit :: "string option"
  r_gasPrice :: "string option"
  r_value :: "string option"
  r_data :: "string option"
  r_nonce :: "int option"
  r_storageId :: "string option"
  r_storageEndpoint :: "string option"
  r_storageMetadata :: "json option"
  r_error :: "string option"
  r_rawResponse :: "json option"

record status_result =
  s_status :: TransactionStatus
  s_confirmations :: int
  s_blockNumber :: "int option"
  s_blockHash :: "string option"
  s_gasUsed :: "string option"
  s_error :: "string option"

text \<open>A thrown value: the class of the error object and its message. \<open>NonError\<close> stands
  for a thrown value that is no instance of \<^verbatim>\<open>Error\<close>.\<close>

datatype error_class =
    GenericError | TypeError | ProviderError | PrismaError | ValidationError | NotFoundError
  | StripeError | StripeSignatureVerificationError | NonError

datatype exn = Exn error_class string

text \<open>\<^verbatim>\<open>error instanceof Error ? error.message : dflt\<close>\<close>

fun error_message :: "exn \<Rightarrow> string \<Rightarrow> string" where
  "error_message (Exn c m) dflt = (if c = NonError then dflt else m)"

text \<open>\<^verbatim>\<open>error instanceof Stripe.errors.StripeError\<close>: the signature error is a subclass.\<close>

fun isStripeError :: "exn \<Rightarrow> bool" where
  "isStripeError (Exn c m) = (c = StripeError \<or> c = StripeSignatureVerificationError)"

datatype 'a ServiceResult = successResult 'a | errorResult string string

text \<open>An adapter is what the orchestrator uses of it: its slug and the outcome of the two
  remote calls, each of which returns or throws.\<close>

record adapter =
  a_slug :: string
  a_executeStorageTransaction :: "tx_params \<Rightarrow> exn + tx_result"
  a_checkTransactionStatus :: "string \<Rightarrow> exn + status_result"

type_synonym registry = "string \<Rightarrow> adapter option"

text \<open>\<^verbatim>\<open>ProviderRegistry.getAdapter\<close>: a miss throws a \<^verbatim>\<open>ProviderError\<close>, whose
  constructor prefixes the slug in brackets.\<close>

definition getAdapter :: "registry \<Rightarrow> string \<Rightarrow> exn + adapter" where
  "getAdapter reg slug =
     (case reg slug of
        None \<Rightarrow> Inl (Exn ProviderError
                 (''['' @ slug @ ''] '' @ ''Provider adapter '' @ [CHR 0x27] @ slug @ [CHR 0x27] @ '' not found''))
      | Some a \<Rightarrow> Inr a)"

section \<open>The payment processor\<close>

text \<open>
  What the services read of the processor's objects. A webhook event is its type with the
  object the handler casts \<^verbatim>\<open>event.data.object\<close> to; \<open>OtherEvent\<close> carries the type
  string of an event the \<^verbatim>\<open>switch\<close> has no case for.
\<close>

record checkout_session =
  cs_id :: string
  cs_orderId :: "string option"
  cs_paymentId :: "string option"
  cs_payment_intent :: "string option"
  cs_customer :: "string option"
  cs_amount_total :: "int option"

record payment_intent =
  pi_id :: string
  pi_last_payment_error :: "string option"

datatype stripe_event =
    CheckoutSessionCompleted checkout_session
  | CheckoutSessionExpired checkout_session
  | PaymentIntentSucceeded payment_intent
  | PaymentIntentPaymentFailed payment_intent
  | OtherEvent string

fun event_type :: "stripe_event \<Rightarrow> string" where
  "event_type (CheckoutSessionCompleted s) = ''checkout.session.completed''"
| "event_type (CheckoutSessionExpired s) = ''checkout.session.expired''"
| "event_type (PaymentIntentSucceeded i) = ''payment_intent.succeeded''"
| "event_type (PaymentIntentPaymentFailed i) = ''payment_intent.payment_failed''"
| "event_type (OtherEvent ty) = ty"

text \<open>The hosted-checkout session as \<^verbatim>\<open>createCheckoutSession\<close> reads it, and the two
  requests it sends. The line item's description, a rendering of the plan's size and
  duration for the hosted page, is not part of the request record.\<close>

record stripe_session =
  ss_id :: string
  ss_url :: "string option"

record customer_request =
  cq_email :: string
  cq_name :: "string option"
  cq_userId :: ident

record session_request =
  sq_customer :: string
  sq_productName :: string
  sq_unitAmount :: int
  sq_successUrl :: string
  sq_cancelUrl :: string
  sq_orderId :: ident
  sq_paymentId :: ident
  sq_userId :: ident
  sq_planId :: ident
  sq_providerId :: ident
  sq_expiresAt :: int

datatype stripe_call =
    SessionsRetrieve string
  | CustomersCreate customer_request
  | SessionsCreate session_request

text \<open>The processor's client: each call returns or throws. \<open>st_constructEvent\<close> is
  \<^verbatim>\<open>webhooks.constructEvent\<close> with the configured secret: it verifies the signature of
  the raw body and parses it.\<close>

record stripe_api =
  st_sessionsRetrieve :: "string \<Rightarrow> exn + stripe_session"
  st_customersCreate :: "customer_request \<Rightarrow> exn + string"
  st_sessionsCreate :: "session_request \<Rightarrow> exn + stripe_session"
  st_constructEvent :: "string \<Rightarrow> string \<Rightarrow> exn + stripe_event"

section \<open>The store and the detached work\<close>

text \<open>
  Each table is the list of its rows in insertion order. Beside the tables the state keeps
  what the services start without awaiting it, and a log of the remote calls:
  \<open>adapterCalls\<close> has one entry per call of \<^verbatim>\<open>executeStorageTransaction\<close>,
  \<open>stripeCalls\<close> one per call of the processor's client,
  \<open>pollers\<close> one per detached \<^verbatim>\<open>pollTransactionConfirmation(txId, slug)\<close>, and
  \<open>allocations\<close> one per detached \<^verbatim>\<open>triggerBlockchainTransaction(orderId)\<close>.
\<close>

record world =
  users :: "user list"
  providers :: "provider list"
  plans :: "storage_plan list"
  orders :: "order list"
  payments :: "payment list"
  transactions :: "blockchain_transaction list"
  adapterCalls :: "(string \<times> tx_params) list"
  stripeCalls :: "stripe_call list"
  pollers :: "(ident \<times> string) list"
  allocations :: "ident list"

text \<open>\<^verbatim>\<open>update({ where: { id } , data })\<close> changes the row with that key and throws when
  there is none. The messages of \<open>recordNotFound\<close> and \<open>uniqueViolation\<close> stand for the
  client's texts, which the source does not contain.\<close>

fun update_row :: "('a \<Rightarrow> bool) \<Rightarrow> ('a \<Rightarrow> 'a) \<Rightarrow> 'a list \<Rightarrow> 'a list option" where
  "update_row P f [] = None"
| "update_row P f (x # xs) =
     (if P x then Some (f x # xs) else map_option ((#) x) (update_row P f xs))"

definition recordNotFound :: exn where
  "recordNotFound = Exn PrismaError ''Record to update not found.''"

definition uniqueViolation :: exn where
  "uniqueViolation = Exn PrismaError ''Unique constraint failed''"

definition order_update :: "ident \<Rightarrow> (order \<Rightarrow> order) \<Rightarrow> world \<Rightarrow> exn + world" where
  "order_update i f w =
     (case update_row (\<lambda>r. o_id r = i) f (orders w) of
        None \<Rightarrow> Inl recordNotFound
      | Some os \<Rightarrow> Inr (w\<lparr>orders := os\<rparr>))"

definition payment_update :: "ident \<Rightarrow> (payment \<Rightarrow> payment) \<Rightarrow> world \<Rightarrow> exn + world" where
  "payment_update i f w =
     (case update_row (\<lambda>p. p_id p = i) f (payments w) of
        None \<Rightarrow> Inl recordNotFound
      | Some ps \<Rightarrow> Inr (w\<lparr>payments := ps\<rparr>))"

definition transaction_update ::
  "ident \<Rightarrow> (blockchain_transaction \<Rightarrow> blockchain_transaction) \<Rightarrow> world \<Rightarrow> exn + world" where
  "transaction_update i f w =
     (case update_row (\<lambda>t. t_id t = i) f (transactions w) of
        None \<Rightarrow> Inl recordNotFound
      | Some ts \<Rightarrow> Inr (w\<lparr>transactions := ts\<rparr>))"

text \<open>\<^verbatim>\<open>blockchainTransaction.create\<close> with the column defaults of the migration; the key
  the store gives the row is an input, and a key already taken violates the primary key.\<close>

definition newTransaction ::
  "ident \<Rightarrow> ident \<Rightarrow> ident \<Rightarrow> NetworkType \<Rightarrow> string option \<Rightarrow> TransactionStatus
     \<Rightarrow> blockchain_transaction" where
  "newTransaction newId orderId providerId network chainId status =
     \<lparr> t_id = newId, t_orderId = orderId, t_providerId = providerId,
       t_txHash = None, t_network = network, t_chainId = chainId,
       t_fromAddress = None, t_toAddress = None, t_gasLimit = None,
       t_gasPrice = None, t_gasUsed = None, t_value = None, t_data = None,
       t_nonce = None, t_status = status, t_statusMessage = None,
       t_confirmations = 0, t_retryCount = 0, t_maxRetries = 3,
       t_lastRetryAt = None, t_blockNumber = None, t_blockHash = None,
       t_rawResponse = None, t_submittedAt = None, t_confirmedAt = None \<rparr>"

definition transaction_create ::
  "ident \<Rightarrow> ident \<Rightarrow> ident \<Rightarrow> NetworkType \<Rightarrow> string option \<Rightarrow> TransactionStatus \<Rightarrow> world
     \<Rightarrow> exn + blockchain_transaction \<times> world" where
  "transaction_create newId orderId providerId network chainId status w =
     (if find (\<lambda>t. t_id t = newId) (transactions w) \<noteq> None then Inl uniqueViolation
      else
        let row = newTransaction newId orderId providerId network chainId status
        in Inr (row, w\<lparr>transactions := transactions w @ [row]\<rparr>))"

text \<open>A member that is \<^verbatim>\<open>undefined\<close> in the \<^verbatim>\<open>data\<close> of an update leaves the
  column as it is.\<close>

fun set_opt :: "'a option \<Rightarrow> 'a option \<Rightarrow> 'a option" where
  "set_opt None old = old"
| "set_opt (Some v) old = Some v"

text \<open>JavaScript's \<^verbatim>\<open>s || dflt\<close> and the truthiness of an optional string: absent and
  empty are both falsy.\<close>

fun or_else :: "string option \<Rightarrow> string \<Rightarrow> string" where
  "or_else None dflt = dflt"
| "or_else (Some s) dflt = (if s = [] then dflt else s)"

fun truthy :: "string option \<Rightarrow> bool" where
  "truthy None = False"
| "truthy (Some s) = (s \<noteq> [])"

fun OrderStatus_name :: "OrderStatus \<Rightarrow> string" where
  "OrderStatus_name PENDING_PAYMENT = ''PENDING_PAYMENT''"
| "OrderStatus_name PAYMENT_PROCESSING = ''PAYMENT_PROCESSING''"
| "OrderStatus_name PAYMENT_COMPLETED = ''PAYMENT_COMPLETED''"
| "OrderStatus_name PAYMENT_FAILED = ''PAYMENT_FAILED''"
| "OrderStatus_name BLOCKCHAIN_PENDING = ''BLOCKCHAIN_PENDING''"
| "OrderStatus_name BLOCKCHAIN_PROCESSING = ''BLOCKCHAIN_PROCESSING''"
| "OrderStatus_name BLOCKCHAIN_CONFIRMED = ''BLOCKCHAIN_CONFIRMED''"
| "OrderStatus_name BLOCKCHAIN_FAILED = ''BLOCKCHAIN_FAILED''"
| "OrderStatus_name COMPLETED = ''COMPLETED''"
| "OrderStatus_name CANCELLED = ''CANCELLED''"
| "OrderStatus_name REFUNDED = ''REFUNDED''"

section \<open>Allocation orchestrator (\<^verbatim>\<open>BlockchainService\<close>)\<close>

text \<open>Lines 80--118 of \<^verbatim>\<open>processOrder\<close>: the adapter returned a successful result with
  a transaction hash.\<close>

definition processOrder_submitted ::
  "adapter \<Rightarrow> tx_result \<Rightarrow> time \<Rightarrow> ident \<Rightarrow> ident \<Rightarrow> world \<Rightarrow> (exn + ident ServiceResult) \<times> world" where
  "processOrder_submitted ad result now txId orderId w =
     (case transaction_update txId
             (\<lambda>t. t\<lparr> t_txHash := set_opt (r_txHash result) (t_txHash t),
                     t_status := r_status result,
                     t_fromAddress := set_opt (r_fromAddress result) (t_fromAddress t),
                     t_toAddress := set_opt (r_toAddress result) (t_toAddress t),
                     t_gasLimit := set_opt (r_gasLimit result) (t_gasLimit t),
                     t_gasPrice := set_opt (r_gasPrice result) (t_gasPrice t),
                     t_value := set_opt (r_value result) (t_value t),
                     t_data := set_opt (r_data result) (t_data t),
                     t_nonce := set_opt (r_nonce result) (t_nonce t),
                     t_submittedAt := Some now,
                     t_rawResponse := set_opt (r_rawResponse result) (t_rawResponse t) \<rparr>) w of
        Inl e \<Rightarrow> (Inl e, w)
      | Inr w1 \<Rightarrow>
          (case order_update orderId
                  (\<lambda>r. r\<lparr> o_status := BLOCKCHAIN_PROCESSING,
                          o_storageId := set_opt (r_storageId result) (o_storageId r),
                          o_storageEndpoint := set_opt (r_storageEndpoint result) (o_storageEndpoint r),
                          o_storageMetadata := set_opt (r_storageMetadata result) (o_storageMetadata r) \<rparr>) w1 of
             Inl e \<Rightarrow> (Inl e, w1)
           | Inr w2 \<Rightarrow>
               (Inr (successResult txId), w2\<lparr>pollers := pollers w2 @ [(txId, a_slug ad)]\<rparr>)))"

text \<open>Lines 119--139: the two updates run in one store transaction, so a throw of either
  leaves the store as it was before the first.\<close>

definition processOrder_rejected ::
  "tx_result \<Rightarrow> ident \<Rightarrow> ident \<Rightarrow> world \<Rightarrow> (exn + ident ServiceResult) \<times> world" where
  "processOrder_rejected result txId orderId w =
     (case transaction_update txId
             (\<lambda>t. t\<lparr> t_status := TX_FAILED,
                     t_statusMessage := Some (or_else (r_error result) ''Transaction failed'') \<rparr>) w of
        Inl e \<Rightarrow> (Inl e, w)
      | Inr w1 \<Rightarrow>
          (case order_update orderId
                  (\<lambda>r. r\<lparr> o_status := BLOCKCHAIN_FAILED,
                          o_statusMessage :=
                            Some (or_else (r_error result) ''Blockchain transaction failed'') \<rparr>) w1 of
             Inl e \<Rightarrow> (Inl e, w)
           | Inr w2 \<Rightarrow>
               (Inr (errorResult ''TRANSACTION_FAILED'' (or_else (r_error result) ''Transaction failed'')),
                w2)))"

definition nullDeref :: exn where
  "nullDeref = Exn TypeError ''Cannot read properties of null''"

text \<open>The \<^verbatim>\<open>txParams\<close> of lines 50--56.\<close>

definition storageTransactionParams :: "order \<Rightarrow> storage_plan \<Rightarrow> user \<Rightarrow> tx_params" where
  "storageTransactionParams ord pl us =
     \<lparr> tp_orderId = o_id ord, tp_planId = pl_id pl,
       tp_storageSizeBytes = pl_storageSizeBytes pl,
       tp_durationDays = o_durationDays ord,
       tp_userWalletAddress = (if truthy (u_walletAddress us) then u_walletAddress us else None) \<rparr>"

text \<open>Lines 42--78: the order passed both guards. The rows joined to the order by
  \<^verbatim>\<open>include\<close> were read with it; dereferencing a missing one throws.\<close>

definition processOrder_dispatch ::
  "registry \<Rightarrow> ident \<Rightarrow> time \<Rightarrow> order \<Rightarrow> provider option \<Rightarrow> storage_plan option \<Rightarrow> user option
     \<Rightarrow> world \<Rightarrow> (exn + ident ServiceResult) \<times> world" where
  "processOrder_dispatch reg newTxId now ord prov plan usr w =
     (case order_update (o_id ord) (\<lambda>r. r\<lparr>o_status := BLOCKCHAIN_PENDING\<rparr>) w of
        Inl e \<Rightarrow> (Inl e, w)
      | Inr w1 \<Rightarrow>
     (case prov of None \<Rightarrow> (Inl nullDeref, w1) | Some pr \<Rightarrow>
     (case getAdapter reg (pr_slug pr) of Inl e \<Rightarrow> (Inl e, w1) | Inr ad \<Rightarrow>
     (case plan of None \<Rightarrow> (Inl nullDeref, w1) | Some pl \<Rightarrow>
     (case usr of None \<Rightarrow> (Inl nullDeref, w1) | Some us \<Rightarrow>
       let txParams = storageTransactionParams ord pl us in
     (case transaction_create newTxId (o_id ord) (o_providerId ord) (pr_network pr) (pr_chainId pr)
             TX_PENDING w1 of
        Inl e \<Rightarrow> (Inl e, w1)
      | Inr (txRecord, w2) \<Rightarrow>
     (case order_update (o_id ord) (\<lambda>r. r\<lparr>o_status := BLOCKCHAIN_PROCESSING\<rparr>) w2 of
        Inl e \<Rightarrow> (Inl e, w2)
      | Inr w3 \<Rightarrow>
       let w4 = w3\<lparr>adapterCalls := adapterCalls w3 @ [(a_slug ad, txParams)]\<rparr> in
     (case a_executeStorageTransaction ad txParams of
        Inl e \<Rightarrow> (Inl e, w4)
      | Inr result \<Rightarrow>
          if r_success result \<and> truthy (r_txHash result)
          then processOrder_submitted ad result now (t_id txRecord) (o_id ord) w4
          else processOrder_rejected result (t_id txRecord) (o_id ord) w4))))))))"

text \<open>The body of the \<^verbatim>\<open>try\<close> (lines 18--139). The order's transactions are read
  without an ordering; the model takes them in the order of insertion.\<close>

definition processOrder_try ::
  "registry \<Rightarrow> ident \<Rightarrow> time \<Rightarrow> ident \<Rightarrow> world \<Rightarrow> (exn + ident ServiceResult) \<times> world" where
  "processOrder_try reg newTxId now orderId w =
     (case find (\<lambda>r. o_id r = orderId) (orders w) of
        None \<Rightarrow> (Inr (errorResult ''ORDER_NOT_FOUND'' ''Order not found''), w)
      | Some ord \<Rightarrow>
          if o_status ord \<noteq> PAYMENT_COMPLETED
          then (Inr (errorResult ''INVALID_ORDER_STATUS''
                       (''Order status is '' @ OrderStatus_name (o_status ord)
                          @ '', expected PAYMENT_COMPLETED'')), w)
          else
            (case find (\<lambda>tx. t_status tx \<noteq> TX_FAILED)
                    (filter (\<lambda>tx. t_orderId tx = orderId) (transactions w)) of
               Some existingTx \<Rightarrow> (Inr (successResult (t_id existingTx)), w)
             | None \<Rightarrow>
                 processOrder_dispatch reg newTxId now ord
                   (find (\<lambda>p. pr_id p = o_providerId ord) (providers w))
                   (find (\<lambda>p. pl_id p = o_planId ord) (plans w))
                   (find (\<lambda>u. u_id u = o_userId ord) (users w)) w))"

text \<open>
  \<^verbatim>\<open>processOrder(orderId)\<close>. \<open>reg\<close> is the registry, \<open>newTxId\<close> the key the store gives
  a created transaction row and \<open>now\<close> the clock at \<^verbatim>\<open>submittedAt\<close>. The \<^verbatim>\<open>catch\<close>
  keeps whatever the body wrote before the throw; its own update is not guarded, so the
  call as a whole can still throw (\<open>Inl\<close>).
\<close>

definition processOrder ::
  "registry \<Rightarrow> ident \<Rightarrow> time \<Rightarrow> ident \<Rightarrow> world \<Rightarrow> (exn + ident ServiceResult) \<times> world" where
  "processOrder reg newTxId now orderId w =
     (case processOrder_try reg newTxId now orderId w of
        (Inr res, w') \<Rightarrow> (Inr res, w')
      | (Inl err, w') \<Rightarrow>
          (case order_update orderId
                  (\<lambda>r. r\<lparr> o_status := BLOCKCHAIN_FAILED,
                          o_statusMessage := Some (error_message err ''Unknown error'') \<rparr>) w' of
             Inl e2 \<Rightarrow> (Inl e2, w')
           | Inr w'' \<Rightarrow>
               (Inr (errorResult ''PROCESSING_FAILED'' (error_message err ''Failed to process order'')),
                w'')))"

text \<open>\<^verbatim>\<open>retryTransaction(txId)\<close>; \<open>retryAt\<close> is the clock at \<^verbatim>\<open>lastRetryAt\<close>.\<close>

definition retryTransaction ::
  "registry \<Rightarrow> ident \<Rightarrow> time \<Rightarrow> time \<Rightarrow> ident \<Rightarrow> world \<Rightarrow> (exn + ident ServiceResult) \<times> world" where
  "retryTransaction reg newTxId retryAt now txId w =
     (case find (\<lambda>t. t_id t = txId) (transactions w) of
        None \<Rightarrow> (Inr (errorResult ''TX_NOT_FOUND'' ''Transaction not found''), w)
      | Some tx \<Rightarrow>
          if t_status tx \<noteq> TX_FAILED
          then (Inr (errorResult ''INVALID_STATUS'' ''Can only retry failed transactions''), w)
          else if t_retryCount tx \<ge> t_maxRetries tx
          then (Inr (errorResult ''MAX_RETRIES'' ''Maximum retry attempts reached''), w)
          else
            (case transaction_update txId
                    (\<lambda>t. t\<lparr> t_retryCount := t_retryCount t + 1,
                            t_lastRetryAt := Some retryAt,
                            t_status := TX_RETRYING \<rparr>) w of
               Inl e \<Rightarrow> (Inl e, w)
             | Inr w1 \<Rightarrow> processOrder reg newTxId now (t_orderId tx) w1))"

section \<open>Dates\<close>

text \<open>
  A \<^verbatim>\<open>Date\<close> holds a time value, the milliseconds since the epoch in UTC, or is invalid.
  \<^verbatim>\<open>getDate\<close> and \<^verbatim>\<open>setDate\<close> work on the calendar of the host's local time zone;
  the definitions below are the abstract operations by which the language standard defines
  them. The zone is the standard's \<^verbatim>\<open>LocalTZA(t, isUTC)\<close>: the offset of local time from
  UTC in milliseconds, at the UTC time \<open>t\<close> when \<open>isUTC\<close> holds and at the local time \<open>t\<close>
  otherwise. The code computes on doubles: a value that passes \<^verbatim>\<open>TimeClip\<close> is an
  integer below \<open>2\<^sup>5\<^sup>3\<close> and is computed exactly, and a value that the doubles round lies
  beyond the bound of \<^verbatim>\<open>TimeClip\<close> before and after rounding.
\<close>

type_synonym zone = "time \<Rightarrow> bool \<Rightarrow> int"

definition msPerDay :: int where
  "msPerDay = 86400000"

definition Day :: "time \<Rightarrow> int" where
  "Day t = t div msPerDay"

definition TimeWithinDay :: "time \<Rightarrow> int" where
  "TimeWithinDay t = t mod msPerDay"

definition DaysInYear :: "int \<Rightarrow> int" where
  "DaysInYear y =
     (if y mod 4 \<noteq> 0 then 365 else if y mod 100 \<noteq> 0 then 366
      else if y mod 400 \<noteq> 0 then 365 else 366)"

definition DayFromYear :: "int \<Rightarrow> int" where
  "DayFromYear y =
     365 * (y - 1970) + (y - 1969) div 4 - (y - 1901) div 100 + (y - 1601) div 400"

text \<open>The largest year that starts on or before the day of \<open>t\<close>. A year has 365 or 366
  days, which bounds the years to search.\<close>

definition YearFromTime :: "time \<Rightarrow> int" where
  "YearFromTime t =
     (let d = Day t;
          lo = 1970 + (if 0 \<le> d then d div 366 else d div 365);
          hi = 1971 + (if 0 \<le> d then d div 365 else d div 366)
      in case filter (\<lambda>y. DayFromYear y \<le> d) (rev [lo..hi]) of
           [] \<Rightarrow> lo
         | y # ys \<Rightarrow> y)"

definition InLeapYear :: "time \<Rightarrow> int" where
  "InLeapYear t = (if DaysInYear (YearFromTime t) = 366 then 1 else 0)"

definition DayWithinYear :: "time \<Rightarrow> int" where
  "DayWithinYear t = Day t - DayFromYear (YearFromTime t)"

definition MonthFromTime :: "time \<Rightarrow> int" where
  "MonthFromTime t =
     (let d = DayWithinYear t; l = InLeapYear t in
      if d < 31 then 0 else if d < 59 + l then 1 else if d < 90 + l then 2
      else if d < 120 + l then 3 else if d < 151 + l then 4 else if d < 181 + l then 5
      else if d < 212 + l then 6 else if d < 243 + l then 7 else if d < 273 + l then 8
      else if d < 304 + l then 9 else if d < 334 + l then 10 else 11)"

definition DateFromTime :: "time \<Rightarrow> int" where
  "DateFromTime t =
     (let d = DayWithinYear t; l = InLeapYear t; m = MonthFromTime t in
      if m = 0 then d + 1 else if m = 1 then d - 30 else if m = 2 then d - 58 - l
      else if m = 3 then d - 89 - l else if m = 4 then d - 119 - l
      else if m = 5 then d - 150 - l else if m = 6 then d - 180 - l
      else if m = 7 then d - 211 - l else if m = 8 then d - 242 - l
      else if m = 9 then d - 272 - l else if m = 10 then d - 303 - l else d - 333 - l)"

text \<open>The day number of the first day of month \<open>m\<close> (from 0) of year \<open>y\<close>, and
  \<^verbatim>\<open>MakeDay\<close>, which counts on from it; a month outside 0 to 11 carries into the year.\<close>

definition firstDayOfMonth :: "int \<Rightarrow> int \<Rightarrow> int" where
  "firstDayOfMonth y m =
     (let l = (if DaysInYear y = 366 then 1 else 0) in
      DayFromYear y +
        (if m = 0 then 0 else if m = 1 then 31 else if m = 2 then 59 + l
         else if m = 3 then 90 + l else if m = 4 then 120 + l else if m = 5 then 151 + l
         else if m = 6 then 181 + l else if m = 7 then 212 + l else if m = 8 then 243 + l
         else if m = 9 then 273 + l else if m = 10 then 304 + l else 334 + l))"

definition MakeDay :: "int \<Rightarrow> int \<Rightarrow> int \<Rightarrow> int" where
  "MakeDay year month date = firstDayOfMonth (year + month div 12) (month mod 12) + date - 1"

definition MakeDate :: "int \<Rightarrow> int \<Rightarrow> time" where
  "MakeDate day time = day * msPerDay + time"

text \<open>\<open>None\<close> is the invalid date.\<close>

definition TimeClip :: "int \<Rightarrow> time option" where
  "TimeClip t = (if \<bar>t\<bar> > 8640000000000000 then None else Some t)"

definition LocalTime :: "zone \<Rightarrow> time \<Rightarrow> time" where
  "LocalTime tz t = t + tz t True"

definition UTC :: "zone \<Rightarrow> time \<Rightarrow> time" where
  "UTC tz t = t - tz t False"

definition getDate :: "zone \<Rightarrow> time \<Rightarrow> int" where
  "getDate tz t = DateFromTime (LocalTime tz t)"

definition setDate :: "zone \<Rightarrow> time \<Rightarrow> int \<Rightarrow> time option" where
  "setDate tz t date =
     (let lt = LocalTime tz t;
          newDate = MakeDate (MakeDay (YearFromTime lt) (MonthFromTime lt) date) (TimeWithinDay lt)
      in TimeClip (UTC tz newDate))"

text \<open>\<^verbatim>\<open>addDays(date, days)\<close> of the helpers, for a valid \<open>date\<close>: a copy of the date
  with the day of the month moved on by \<open>days\<close>.\<close>

definition addDays :: "zone \<Rightarrow> time \<Rightarrow> int \<Rightarrow> time option" where
  "addDays tz date days = setDate tz date (getDate tz date + days)"

section \<open>Confirmation poller and sweep\<close>

text \<open>
  What one status probe sees of the outside: the registry with the adapters' answers at that
  moment, the time zone of the process, and the clock at each \<^verbatim>\<open>new Date()\<close> of the
  probe: for \<^verbatim>\<open>confirmedAt\<close>, for the argument of \<^verbatim>\<open>addDays\<close>, and for
  \<^verbatim>\<open>allocatedAt\<close>.
\<close>

record poll_obs =
  ob_registry :: registry
  ob_zone :: zone
  ob_confirmedAt :: time
  ob_expiresFrom :: time
  ob_allocatedAt :: time

text \<open>
  The columns \<^verbatim>\<open>confirmations\<close> and \<^verbatim>\<open>block_number\<close> of the transaction table are a
  32-bit and a 64-bit integer: an update with a value outside the range throws. Every
  adapter of the repository gives \<^verbatim>\<open>confirmations\<close> as a literal or as a difference of
  block numbers, a whole number.
\<close>

definition int4 :: "int \<Rightarrow> bool" where
  "int4 n = (- 2147483648 \<le> n \<and> n \<le> 2147483647)"

definition int8 :: "int \<Rightarrow> bool" where
  "int8 n = (- 9223372036854775808 \<le> n \<and> n \<le> 9223372036854775807)"

definition storableStatus :: "status_result \<Rightarrow> bool" where
  "storableStatus status =
     (int4 (s_confirmations status)
      \<and> (case s_blockNumber status of None \<Rightarrow> True | Some b \<Rightarrow> int8 b))"

text \<open>
  The \<^verbatim>\<open>data\<close> the poller and the sweep write on a probe's answer. The transaction
  takes the answer's status, confirmations and block fields, and \<^verbatim>\<open>confirmedAt\<close> when
  the answer is \<^verbatim>\<open>CONFIRMED\<close> (the poller adds the answer's error as
  \<^verbatim>\<open>statusMessage\<close>). The order of a confirmed transaction becomes \<^verbatim>\<open>COMPLETED\<close>
  with the two dates given; an update with an invalid date throws.
\<close>

definition probedTransaction ::
  "poll_obs \<Rightarrow> status_result \<Rightarrow> blockchain_transaction \<Rightarrow> blockchain_transaction" where
  "probedTransaction ob status t =
     t\<lparr> t_status := s_status status,
        t_confirmations := s_confirmations status,
        t_blockNumber := set_opt (s_blockNumber status) (t_blockNumber t),
        t_blockHash := set_opt (s_blockHash status) (t_blockHash t),
        t_gasUsed := set_opt (s_gasUsed status) (t_gasUsed t),
        t_confirmedAt :=
          (if s_status status = TX_CONFIRMED then Some (ob_confirmedAt ob) else t_confirmedAt t) \<rparr>"

definition completedOrder :: "time \<Rightarrow> time \<Rightarrow> order \<Rightarrow> order" where
  "completedOrder allocatedAt expiresAt r =
     r\<lparr> o_status := COMPLETED,
        o_allocatedAt := Some allocatedAt,
        o_expiresAt := Some expiresAt \<rparr>"

datatype poll_step = Stop | Continue

text \<open>One pass of the loop body of \<^verbatim>\<open>pollTransactionConfirmation\<close> (lines 165--222), after
  the sleep: \<open>Stop\<close> is a \<^verbatim>\<open>return\<close>, \<open>Continue\<close> the end of the body, reached also
  through its \<^verbatim>\<open>catch\<close>, which only logs.\<close>

definition pollIteration :: "poll_obs \<Rightarrow> ident \<Rightarrow> string \<Rightarrow> world \<Rightarrow> poll_step \<times> world" where
  "pollIteration ob txId providerSlug w =
     (case find (\<lambda>t. t_id t = txId) (transactions w) of
        None \<Rightarrow> (Stop, w)
      | Some tx \<Rightarrow>
     (case t_txHash tx of
        None \<Rightarrow> (Stop, w)
      | Some txHash \<Rightarrow>
          if txHash = [] then (Stop, w)
          else if t_status tx = TX_CONFIRMED \<or> t_status tx = TX_FAILED then (Stop, w)
          else
     (case getAdapter (ob_registry ob) providerSlug of Inl e \<Rightarrow> (Continue, w) | Inr ad \<Rightarrow>
     (case a_checkTransactionStatus ad txHash of Inl e \<Rightarrow> (Continue, w) | Inr status \<Rightarrow>
          if \<not> storableStatus status then (Continue, w)
          else
     (case transaction_update txId
             (\<lambda>t. (probedTransaction ob status t)
                     \<lparr> t_statusMessage := set_opt (s_error status) (t_statusMessage t) \<rparr>) w of
        Inl e \<Rightarrow> (Continue, w)
      | Inr w1 \<Rightarrow>
          if s_status status = TX_CONFIRMED then
            (case find (\<lambda>r. o_id r = t_orderId tx) (orders w) of
               None \<Rightarrow> (Continue, w1)
             | Some ord \<Rightarrow>
            (case addDays (ob_zone ob) (ob_expiresFrom ob) (o_durationDays ord) of
               None \<Rightarrow> (Continue, w1)
             | Some expiresAt \<Rightarrow>
                 (case order_update (t_orderId tx)
                         (completedOrder (ob_allocatedAt ob) expiresAt) w1 of
                    Inl e \<Rightarrow> (Continue, w1)
                  | Inr w2 \<Rightarrow> (Stop, w2))))
          else if s_status status = TX_FAILED then
            (case order_update (t_orderId tx)
                    (\<lambda>r. r\<lparr> o_status := BLOCKCHAIN_FAILED,
                            o_statusMessage := Some (or_else (s_error status) ''Transaction failed'') \<rparr>) w1 of
               Inl e \<Rightarrow> (Continue, w1)
             | Inr w2 \<Rightarrow> (Stop, w2))
          else (Continue, w1))))))"









section \<open>Webhook ingestor (\<^verbatim>\<open>PaymentService\<close>)\<close>

text \<open>The unique indexes on \<^verbatim>\<open>payments.stripe_payment_intent_id\<close> and
  \<^verbatim>\<open>payments.stripe_session_id\<close>: a value already held by another row cannot be written.\<close>

definition intentTaken :: "ident \<Rightarrow> string option \<Rightarrow> world \<Rightarrow> bool" where
  "intentTaken paymentId v w =
     (v \<noteq> None \<and> (\<exists>q \<in> set (payments w). p_id q \<noteq> paymentId \<and> p_stripePaymentIntentId q = v))"

definition sessionTaken :: "ident \<Rightarrow> string option \<Rightarrow> world \<Rightarrow> bool" where
  "sessionTaken paymentId v w =
     (v \<noteq> None \<and> (\<exists>q \<in> set (payments w). p_id q \<noteq> paymentId \<and> p_stripeSessionId q = v))"

fun json_of_string_option :: "string option \<Rightarrow> json" where
  "json_of_string_option None = JNull"
| "json_of_string_option (Some s) = JString s"

fun json_of_int_option :: "int option \<Rightarrow> json" where
  "json_of_int_option None = JNull"
| "json_of_int_option (Some n) = JNumber n"

text \<open>The \<^verbatim>\<open>data\<close> of the payment update of \<^verbatim>\<open>handleCheckoutCompleted\<close> (lines
  601--610).\<close>

definition completedPayment :: "checkout_session \<Rightarrow> time \<Rightarrow> payment \<Rightarrow> payment" where
  "completedPayment session processedAt p =
     p\<lparr> p_status := PAY_SUCCEEDED,
        p_stripePaymentIntentId := cs_payment_intent session,
        p_processedAt := Some processedAt,
        p_metadata :=
          JObject [(''sessionId'', JString (cs_id session)),
                   (''customerId'', json_of_string_option (cs_customer session)),
                   (''amountTotal'', json_of_int_option (cs_amount_total session))] \<rparr>"

text \<open>
  \<^verbatim>\<open>handleCheckoutCompleted(session)\<close>; \<open>processedAt\<close> and \<open>paidAt\<close> are the clock at the two
  \<^verbatim>\<open>new Date()\<close>. The two updates run in one store transaction. The allocation is started
  without awaiting it: the order id is appended to \<open>allocations\<close>.
\<close>

definition handleCheckoutCompleted ::
  "checkout_session \<Rightarrow> time \<Rightarrow> time \<Rightarrow> world \<Rightarrow> (exn + unit) \<times> world" where
  "handleCheckoutCompleted session processedAt paidAt w =
     (case (cs_orderId session, cs_paymentId session) of
        (Some orderId, Some paymentId) \<Rightarrow>
          if orderId = [] \<or> paymentId = [] then (Inr (), w)
          else
            (case find (\<lambda>p. p_id p = paymentId) (payments w) of
               Some existingPayment \<Rightarrow>
                 if p_status existingPayment = PAY_SUCCEEDED then (Inr (), w)
                 else if intentTaken paymentId (cs_payment_intent session) w
                 then (Inl uniqueViolation, w)
                 else
                   (case payment_update paymentId (completedPayment session processedAt) w of
                      Inl e \<Rightarrow> (Inl e, w)
                    | Inr w1 \<Rightarrow>
                        (case order_update orderId
                                (\<lambda>r. r\<lparr> o_status := PAYMENT_COMPLETED, o_paidAt := Some paidAt \<rparr>) w1 of
                           Inl e \<Rightarrow> (Inl e, w)
                         | Inr w2 \<Rightarrow> (Inr (), w2\<lparr>allocations := allocations w2 @ [orderId]\<rparr>)))
             | None \<Rightarrow> (Inl recordNotFound, w))
      | _ \<Rightarrow> (Inr (), w))"

text \<open>\<^verbatim>\<open>handleCheckoutExpired(session)\<close>\<close>

definition handleCheckoutExpired :: "checkout_session \<Rightarrow> world \<Rightarrow> (exn + unit) \<times> world" where
  "handleCheckoutExpired session w =
     (case (cs_orderId session, cs_paymentId session) of
        (Some orderId, Some paymentId) \<Rightarrow>
          if orderId = [] \<or> paymentId = [] then (Inr (), w)
          else
            (case payment_update paymentId
                    (\<lambda>p. p\<lparr> p_status := PAY_CANCELLED,
                            p_statusMessage := Some ''Checkout session expired'' \<rparr>) w of
               Inl e \<Rightarrow> (Inl e, w)
             | Inr w1 \<Rightarrow>
                 (case order_update orderId
                         (\<lambda>r. r\<lparr> o_status := CANCELLED,
                                 o_statusMessage := Some ''Payment session expired'' \<rparr>) w1 of
                    Inl e \<Rightarrow> (Inl e, w)
                  | Inr w2 \<Rightarrow> (Inr (), w2)))
      | _ \<Rightarrow> (Inr (), w))"

text \<open>\<^verbatim>\<open>handlePaymentSucceeded(paymentIntent)\<close>\<close>

definition handlePaymentSucceeded :: "payment_intent \<Rightarrow> time \<Rightarrow> world \<Rightarrow> (exn + unit) \<times> world" where
  "handlePaymentSucceeded paymentIntent processedAt w =
     (case find (\<lambda>p. p_stripePaymentIntentId p = Some (pi_id paymentIntent)) (payments w) of
        None \<Rightarrow> (Inr (), w)
      | Some pay \<Rightarrow>
          if p_status pay \<noteq> PAY_SUCCEEDED then
            (case payment_update (p_id pay)
                    (\<lambda>p. p\<lparr> p_status := PAY_SUCCEEDED, p_processedAt := Some processedAt \<rparr>) w of
               Inl e \<Rightarrow> (Inl e, w)
             | Inr w1 \<Rightarrow> (Inr (), w1))
          else (Inr (), w))"

text \<open>\<^verbatim>\<open>handlePaymentFailed(paymentIntent)\<close>\<close>

definition handlePaymentFailed :: "payment_intent \<Rightarrow> world \<Rightarrow> (exn + unit) \<times> world" where
  "handlePaymentFailed paymentIntent w =
     (case find (\<lambda>p. p_stripePaymentIntentId p = Some (pi_id paymentIntent)) (payments w) of
        None \<Rightarrow> (Inr (), w)
      | Some pay \<Rightarrow>
          (case payment_update (p_id pay)
                  (\<lambda>p. p\<lparr> p_status := PAY_FAILED,
                          p_statusMessage :=
                            Some (or_else (pi_last_payment_error paymentIntent) ''Payment failed'') \<rparr>) w of
             Inl e \<Rightarrow> (Inl e, w)
           | Inr w1 \<Rightarrow>
               (case order_update (p_orderId pay)
                       (\<lambda>r. r\<lparr> o_status := PAYMENT_FAILED,
                               o_statusMessage := Some ''Payment failed'' \<rparr>) w1 of
                  Inl e \<Rightarrow> (Inl e, w)
                | Inr w2 \<Rightarrow> (Inr (), w2))))"

text \<open>The \<^verbatim>\<open>switch\<close> of \<^verbatim>\<open>handleWebhook\<close>.\<close>

fun dispatchEvent :: "stripe_event \<Rightarrow> time \<Rightarrow> time \<Rightarrow> world \<Rightarrow> (exn + unit) \<times> world" where
  "dispatchEvent (CheckoutSessionCompleted session) t1 t2 w = handleCheckoutCompleted session t1 t2 w"
| "dispatchEvent (CheckoutSessionExpired session) t1 t2 w = handleCheckoutExpired session w"
| "dispatchEvent (PaymentIntentSucceeded paymentIntent) t1 t2 w = handlePaymentSucceeded paymentIntent t1 w"
| "dispatchEvent (PaymentIntentPaymentFailed paymentIntent) t1 t2 w = handlePaymentFailed paymentIntent w"
| "dispatchEvent (OtherEvent ty) t1 t2 w = (Inr (), w)"

text \<open>The \<^verbatim>\<open>catch\<close> of \<^verbatim>\<open>handleWebhook\<close>.\<close>

fun webhookFailure :: "exn \<Rightarrow> (bool \<times> string) ServiceResult" where
  "webhookFailure (Exn c m) =
     (if c = StripeSignatureVerificationError
      then errorResult ''INVALID_SIGNATURE'' ''Invalid webhook signature''
      else errorResult ''WEBHOOK_FAILED'' (error_message (Exn c m) ''Webhook handling failed''))"

text \<open>\<^verbatim>\<open>handleWebhook(payload, signature)\<close>; the success value is
  \<^verbatim>\<open>{handled, eventType}\<close>. \<open>t1\<close> and \<open>t2\<close> are the clock readings of the handler.\<close>

definition handleWebhook ::
  "stripe_api \<Rightarrow> string \<Rightarrow> string \<Rightarrow> time \<Rightarrow> time \<Rightarrow> world \<Rightarrow> (bool \<times> string) ServiceResult \<times> world" where
  "handleWebhook stripe payload signature t1 t2 w =
     (case st_constructEvent stripe payload signature of
        Inl e \<Rightarrow> (webhookFailure e, w)
      | Inr event \<Rightarrow>
          (case dispatchEvent event t1 t2 w of
             (Inl e, w') \<Rightarrow> (webhookFailure e, w')
           | (Inr u, w') \<Rightarrow> (successResult (True, event_type event), w')))"

text \<open>The route \<^verbatim>\<open>POST /webhook\<close> of the payment controller: the request is the
  \<^verbatim>\<open>stripe-signature\<close> header and the raw body, the response a status code and a JSON
  body.\<close>

record http_response =
  res_status :: nat
  res_body :: json

definition webhookRoute ::
  "stripe_api \<Rightarrow> string option \<Rightarrow> string \<Rightarrow> time \<Rightarrow> time \<Rightarrow> world \<Rightarrow> http_response \<times> world" where
  "webhookRoute stripe signatureHeader body t1 t2 w =
     (if \<not> truthy signatureHeader
      then (\<lparr> res_status = 200,
               res_body = JObject [(''received'', JBool True), (''error'', JString ''Processing failed'')] \<rparr>, w)
      else
        (case handleWebhook stripe body (or_else signatureHeader []) t1 t2 w of
           (successResult dat, w') \<Rightarrow>
             (\<lparr> res_status = 200,
                res_body = JObject [(''received'', JBool True), (''eventType'', JString (snd dat))] \<rparr>, w')
         | (errorResult code message, w') \<Rightarrow>
             (\<lparr> res_status = 400, res_body = JObject [(''error'', JString message)] \<rparr>, w')))"

text \<open>The same signed delivery handled once for each pair of clock readings of a list.\<close>

fun replayWebhook :: "stripe_api \<Rightarrow> string \<Rightarrow> string \<Rightarrow> (time \<times> time) list \<Rightarrow> world \<Rightarrow> world" where
  "replayWebhook stripe payload signature [] w = w"
| "replayWebhook stripe payload signature (t # ts) w =
     replayWebhook stripe payload signature ts
       (snd (handleWebhook stripe payload signature (fst t) (snd t) w))"

section \<open>Order service\<close>

text \<open>\<^verbatim>\<open>cancelOrder(orderId)\<close>: throws unless the order exists in \<^verbatim>\<open>PENDING_PAYMENT\<close>;
  the value returned is the updated row.\<close>

definition cancelOrder :: "ident \<Rightarrow> world \<Rightarrow> (exn + order) \<times> world" where
  "cancelOrder orderId w =
     (case find (\<lambda>r. o_id r = orderId) (orders w) of
        None \<Rightarrow>
          (Inl (Exn NotFoundError (''Order with identifier '' @ [CHR 0x27] @ orderId @ [CHR 0x27] @ '' not found'')), w)
      | Some ord \<Rightarrow>
          if o_status ord \<noteq> PENDING_PAYMENT
          then (Inl (Exn GenericError (''Cannot cancel order with status: '' @ OrderStatus_name (o_status ord))), w)
          else
            (case order_update orderId
                    (\<lambda>r. r\<lparr> o_status := CANCELLED, o_statusMessage := Some ''Cancelled by user'' \<rparr>) w of
               Inl e \<Rightarrow> (Inl e, w)
             | Inr w1 \<Rightarrow>
                 (case find (\<lambda>r. o_id r = orderId) (orders w1) of
                    None \<Rightarrow> (Inl recordNotFound, w1)
                  | Some updatedOrder \<Rightarrow> (Inr updatedOrder, w1))))"

section \<open>Checkout initiator (\<^verbatim>\<open>PaymentService.createCheckoutSession\<close>)\<close>

record checkout_params =
  cp_userId :: ident
  cp_planId :: ident
  cp_successUrl :: string
  cp_cancelUrl :: string
  cp_idempotencyKey :: "string option"

record checkout_result =
  cr_sessionId :: string
  cr_sessionUrl :: string
  cr_orderId :: ident
  cr_paymentId :: ident

text \<open>What a call generates or reads from outside: the keys the store gives the two rows,
  \<^verbatim>\<open>generateOrderNumber()\<close>, the two \<^verbatim>\<open>generateIdempotencyKey()\<close> and
  \<^verbatim>\<open>Date.now()\<close>.\<close>

record generated =
  gen_orderId :: ident
  gen_paymentId :: ident
  gen_orderNumber :: string
  gen_orderKey :: string
  gen_paymentKey :: string
  gen_now :: time

fun exn_message :: "exn \<Rightarrow> string" where
  "exn_message (Exn c m) = m"

text \<open>Lines 365--384: the order bearing the supplied key, its first payment and that
  payment's session id, when all three are there.\<close>

definition findExistingCheckout :: "string option \<Rightarrow> world \<Rightarrow> (order \<times> payment \<times> string) option" where
  "findExistingCheckout idempotencyKey w =
     (if truthy idempotencyKey then
        (case find (\<lambda>r. o_idempotencyKey r = idempotencyKey) (orders w) of
           None \<Rightarrow> None
         | Some existingOrder \<Rightarrow>
             (case filter (\<lambda>p. p_orderId p = o_id existingOrder) (payments w) of
                [] \<Rightarrow> None
              | pay # rest \<Rightarrow>
                  (case p_stripeSessionId pay of
                     None \<Rightarrow> None
                   | Some sid \<Rightarrow> if sid = [] then None else Some (existingOrder, pay, sid))))
      else None)"

text \<open>Lines 406--423: the processor-side customer, created on first purchase and cached on
  the user row (\<^verbatim>\<open>users.stripe_customer_id\<close> is unique).\<close>

definition ensureCustomer :: "stripe_api \<Rightarrow> user \<Rightarrow> world \<Rightarrow> (exn + string) \<times> world" where
  "ensureCustomer stripe usr w =
     (case (if truthy (u_stripeCustomerId usr) then u_stripeCustomerId usr else None) of
        Some cid \<Rightarrow> (Inr cid, w)
      | None \<Rightarrow>
          let req = \<lparr> cq_email = u_email usr,
                      cq_name = (if truthy (u_name usr) then u_name usr else None),
                      cq_userId = u_id usr \<rparr>;
              w1 = w\<lparr>stripeCalls := stripeCalls w @ [CustomersCreate req]\<rparr>
          in
          (case st_customersCreate stripe req of
             Inl e \<Rightarrow> (Inl e, w1)
           | Inr cid \<Rightarrow>
               if \<exists>q \<in> set (users w1). u_id q \<noteq> u_id usr \<and> u_stripeCustomerId q = Some cid
               then (Inl uniqueViolation, w1)
               else
                 (case update_row (\<lambda>q. u_id q = u_id usr) (\<lambda>q. q\<lparr>u_stripeCustomerId := Some cid\<rparr>)
                         (users w1) of
                    None \<Rightarrow> (Inl recordNotFound, w1)
                  | Some us \<Rightarrow> (Inr cid, w1\<lparr>users := us\<rparr>))))"

text \<open>Lines 426--455: the order and its payment are created in one store transaction; a
  violated primary key or unique index (\<^verbatim>\<open>orders.order_number\<close>,
  \<^verbatim>\<open>orders.idempotency_key\<close>, \<^verbatim>\<open>payments.idempotency_key\<close>) throws and nothing is
  written.\<close>

definition createOrderAndPayment ::
  "generated \<Rightarrow> string option \<Rightarrow> user \<Rightarrow> storage_plan \<Rightarrow> provider option \<Rightarrow> world
     \<Rightarrow> exn + order \<times> payment \<times> world" where
  "createOrderAndPayment gen idempotencyKey usr plan provOpt w =
     (case provOpt of
        None \<Rightarrow> Inl nullDeref
      | Some prov \<Rightarrow>
          let newOrder =
                \<lparr> o_id = gen_orderId gen, o_orderNumber = gen_orderNumber gen,
                  o_userId = u_id usr, o_providerId = pr_id prov, o_planId = pl_id plan,
                  o_storageSizeGb = pl_storageSizeGb plan, o_durationDays = pl_durationDays plan,
                  o_priceUsdCents = pl_priceUsdCents plan,
                  o_storageId = None, o_storageEndpoint = None, o_storageMetadata = None,
                  o_status = PENDING_PAYMENT, o_statusMessage = None,
                  o_idempotencyKey = Some (or_else idempotencyKey (gen_orderKey gen)),
                  o_paidAt = None, o_allocatedAt = None, o_expiresAt = None \<rparr>;
              newPayment =
                \<lparr> p_id = gen_paymentId gen, p_orderId = gen_orderId gen, p_userId = u_id usr,
                  p_stripePaymentIntentId = None, p_stripeSessionId = None,
                  p_amountCents = pl_priceUsdCents plan, p_currency = ''usd'',
                  p_status = PAY_PENDING, p_statusMessage = None, p_metadata = JObject [],
                  p_idempotencyKey = Some (gen_paymentKey gen), p_processedAt = None \<rparr>
          in
          if \<exists>r \<in> set (orders w).
                o_id r = o_id newOrder \<or> o_orderNumber r = o_orderNumber newOrder
                \<or> o_idempotencyKey r = o_idempotencyKey newOrder
          then Inl uniqueViolation
          else if \<exists>q \<in> set (payments w).
                p_id q = p_id newPayment \<or> p_idempotencyKey q = p_idempotencyKey newPayment
          then Inl uniqueViolation
          else Inr (newOrder, newPayment,
                    w\<lparr>orders := orders w @ [newOrder], payments := payments w @ [newPayment]\<rparr>))"

text \<open>Lines 386--510: no session to hand back, so a new order is made.\<close>

definition createCheckout_new ::
  "stripe_api \<Rightarrow> generated \<Rightarrow> checkout_params \<Rightarrow> world
     \<Rightarrow> (exn + checkout_result ServiceResult) \<times> world" where
  "createCheckout_new stripe gen params w =
     (case find (\<lambda>p. pl_id p = cp_planId params) (plans w) of
        None \<Rightarrow> (Inr (errorResult ''PLAN_NOT_FOUND'' ''Storage plan not found''), w)
      | Some plan \<Rightarrow>
          if pl_status plan \<noteq> AVAILABLE \<or> \<not> pl_isActive plan
          then (Inr (errorResult ''PLAN_UNAVAILABLE'' ''This storage plan is no longer available''), w)
          else
     (case find (\<lambda>u. u_id u = cp_userId params) (users w) of
        None \<Rightarrow> (Inr (errorResult ''USER_NOT_FOUND'' ''User not found''), w)
      | Some usr \<Rightarrow>
     (case ensureCustomer stripe usr w of
        (Inl e, w1) \<Rightarrow> (Inl e, w1)
      | (Inr stripeCustomerId, w1) \<Rightarrow>
     (case createOrderAndPayment gen (cp_idempotencyKey params) usr plan
             (find (\<lambda>p. pr_id p = pl_providerId plan) (providers w)) w1 of
        Inl e \<Rightarrow> (Inl e, w1)
      | Inr (newOrder, newPayment, w2) \<Rightarrow>
     (case find (\<lambda>p. pr_id p = pl_providerId plan) (providers w) of
        None \<Rightarrow> (Inl nullDeref, w2)
      | Some prov \<Rightarrow>
          let req = \<lparr> sq_customer = stripeCustomerId,
                      sq_productName = pr_name prov @ '' - '' @ pl_name plan,
                      sq_unitAmount = pl_priceUsdCents plan,
                      sq_successUrl = cp_successUrl params @ ''?order_id='' @ o_id newOrder
                                        @ ''&session_id={CHECKOUT_SESSION_ID}'',
                      sq_cancelUrl = cp_cancelUrl params @ ''?order_id='' @ o_id newOrder,
                      sq_orderId = o_id newOrder, sq_paymentId = p_id newPayment,
                      sq_userId = u_id usr, sq_planId = pl_id plan, sq_providerId = pr_id prov,
                      sq_expiresAt = gen_now gen div 1000 + 30 * 60 \<rparr>;
              w3 = w2\<lparr>stripeCalls := stripeCalls w2 @ [SessionsCreate req]\<rparr>
          in
     (case st_sessionsCreate stripe req of
        Inl e \<Rightarrow> (Inl e, w3)
      | Inr session \<Rightarrow>
          if sessionTaken (p_id newPayment) (Some (ss_id session)) w3
          then (Inl uniqueViolation, w3)
          else
            (case payment_update (p_id newPayment)
                    (\<lambda>p. p\<lparr>p_stripeSessionId := Some (ss_id session)\<rparr>) w3 of
               Inl e \<Rightarrow> (Inl e, w3)
             | Inr w4 \<Rightarrow>
                 (Inr (successResult
                         \<lparr> cr_sessionId = ss_id session,
                           cr_sessionUrl = or_else (ss_url session) [],
                           cr_orderId = o_id newOrder,
                           cr_paymentId = p_id newPayment \<rparr>), w4))))))))"

text \<open>The body of the \<^verbatim>\<open>try\<close> of \<^verbatim>\<open>createCheckoutSession\<close>.\<close>

definition createCheckoutSession_try ::
  "stripe_api \<Rightarrow> generated \<Rightarrow> checkout_params \<Rightarrow> world
     \<Rightarrow> (exn + checkout_result ServiceResult) \<times> world" where
  "createCheckoutSession_try stripe gen params w =
     (case findExistingCheckout (cp_idempotencyKey params) w of
        Some (existingOrder, pay, sid) \<Rightarrow>
          let w1 = w\<lparr>stripeCalls := stripeCalls w @ [SessionsRetrieve sid]\<rparr> in
          (case st_sessionsRetrieve stripe sid of
             Inl e \<Rightarrow> (Inl e, w1)
           | Inr session \<Rightarrow>
               (Inr (successResult
                       \<lparr> cr_sessionId = ss_id session,
                         cr_sessionUrl = or_else (ss_url session) [],
                         cr_orderId = o_id existingOrder,
                         cr_paymentId = p_id pay \<rparr>), w1))
      | None \<Rightarrow> createCheckout_new stripe gen params w)"

text \<open>\<^verbatim>\<open>createCheckoutSession(params)\<close> with its \<^verbatim>\<open>catch\<close>.\<close>

definition createCheckoutSession ::
  "stripe_api \<Rightarrow> generated \<Rightarrow> checkout_params \<Rightarrow> world \<Rightarrow> checkout_result ServiceResult \<times> world" where
  "createCheckoutSession stripe gen params w =
     (case createCheckoutSession_try stripe gen params w of
        (Inr res, w') \<Rightarrow> (res, w')
      | (Inl e, w') \<Rightarrow>
          if isStripeError e then (errorResult ''STRIPE_ERROR'' (exn_message e), w')
          else (errorResult ''CHECKOUT_FAILED'' (error_message e ''Failed to create checkout session''), w'))"

section \<open>Filecoin adapter: \<^verbatim>\<open>checkTransactionStatus\<close>\<close>






text \<open>\<^verbatim>\<open>retry(fn, {maxRetries, ...})\<close> of the helpers, from a given attempt on: the first
  result is returned; the last error is thrown once \<open>maxRetries\<close> attempts have failed. A
  thrown value that is no \<^verbatim>\<open>Error\<close> is wrapped into one.\<close>

fun asError :: "exn \<Rightarrow> exn" where
  "asError (Exn c m) = (if c = NonError then Exn GenericError m else Exn c m)"

function retryFrom :: "nat \<Rightarrow> nat \<Rightarrow> exn \<Rightarrow> (nat \<Rightarrow> exn + 'a) \<Rightarrow> exn + 'a" where
  "retryFrom attempt maxRetries lastError fn =
     (if attempt \<le> maxRetries then
        (case fn attempt of
           Inr v \<Rightarrow> Inr v
         | Inl e \<Rightarrow>
             if attempt = maxRetries then Inl (asError e)
             else retryFrom (Suc attempt) maxRetries (asError e) fn)
      else Inl lastError)"
  by pat_completeness auto
termination
  by (relation "measure (\<lambda>(attempt, maxRetries, lastError, fn). Suc maxRetries - attempt)") auto

declare retryFrom.simps [simp del]

definition retry :: "(nat \<Rightarrow> exn + 'a) \<Rightarrow> nat \<Rightarrow> exn + 'a" where
  "retry fn maxRetries = retryFrom 1 maxRetries (Exn GenericError ''Unknown error'') fn"



section \<open>Terminal expiry over sequences of calls\<close>

text \<open>
  Property P5 of a row: a \<^verbatim>\<open>COMPLETED\<close> order has an allocation time, and its expiry lies
  within a second of the allocation time plus 86400000 ms for each day of its duration.
  \<open>P5\<close> holds of a state when it holds of every order row.
\<close>

definition terminalExpiry :: "order \<Rightarrow> bool" where
  "terminalExpiry r =
     (o_status r = COMPLETED \<longrightarrow>
        (case (o_allocatedAt r, o_expiresAt r) of
           (Some allocatedAt, Some expiresAt) \<Rightarrow>
             \<bar>expiresAt - (allocatedAt + o_durationDays r * 86400000)\<bar> \<le> 1000
         | _ \<Rightarrow> False))"

definition P5 :: "world \<Rightarrow> bool" where
  "P5 w = (\<forall>r \<in> set (orders w). terminalExpiry r)"




text \<open>A call of one of the modelled operations with what it receives from outside, the
  state it leaves, and the state after a sequence of calls.\<close>

datatype call =
    Checkout stripe_api generated checkout_params
  | Webhook stripe_api string string time time
  | Cancel ident
  | Process registry ident time ident
  | Retry registry ident time time ident
  | Poll "nat \<Rightarrow> poll_obs" ident string
  | Sweep "nat \<Rightarrow> poll_obs"





section \<open>Sample rows and states\<close>

text \<open>The seed of the end-to-end scenarios: user \<open>u1\<close>, the Filecoin provider, the plan
  \<^verbatim>\<open>fil-starter-1gb\<close> (99 cents, 180 days), order \<open>o1\<close> with payment \<open>pay1\<close> and
  transaction \<open>t1\<close>.\<close>

definition ex_user :: user where
  "ex_user = \<lparr> u_id = ''u1'', u_email = ''u1@example.org'', u_name = None,
               u_walletAddress = None, u_stripeCustomerId = Some ''cus_1'' \<rparr>"

definition ex_provider :: provider where
  "ex_provider = \<lparr> pr_id = ''p1'', pr_name = ''Filecoin'', pr_slug = ''filecoin'',
                   pr_network = TESTNET, pr_chainId = Some ''314159'' \<rparr>"

definition ex_plan :: storage_plan where
  "ex_plan = \<lparr> pl_id = ''fil-starter-1gb'', pl_providerId = ''p1'', pl_name = ''Filecoin Starter'',
               pl_storageSizeGb = 1, pl_storageSizeBytes = 1073741824, pl_durationDays = 180,
               pl_priceUsdCents = 99, pl_status = AVAILABLE, pl_isActive = True \<rparr>"

definition ex_order :: "OrderStatus \<Rightarrow> order" where
  "ex_order st = \<lparr> o_id = ''o1'', o_orderNumber = ''ORD-1'', o_userId = ''u1'', o_providerId = ''p1'',
                   o_planId = ''fil-starter-1gb'', o_storageSizeGb = 1, o_durationDays = 180,
                   o_priceUsdCents = 99, o_storageId = None, o_storageEndpoint = None,
                   o_storageMetadata = None, o_status = st, o_statusMessage = None,
                   o_idempotencyKey = Some ''k1'', o_paidAt = None, o_allocatedAt = None,
                   o_expiresAt = None \<rparr>"

definition ex_payment :: "PaymentStatus \<Rightarrow> string option \<Rightarrow> payment" where
  "ex_payment st sid = \<lparr> p_id = ''pay1'', p_orderId = ''o1'', p_userId = ''u1'',
                     p_stripePaymentIntentId = None, p_stripeSessionId = sid,
                     p_amountCents = 99, p_currency = ''usd'', p_status = st,
                     p_statusMessage = None, p_metadata = JObject [],
                     p_idempotencyKey = Some ''idem_1'', p_processedAt = None \<rparr>"

definition ex_tx :: "TransactionStatus \<Rightarrow> string option \<Rightarrow> int \<Rightarrow> blockchain_transaction" where
  "ex_tx st h n = \<lparr> t_id = ''t1'', t_orderId = ''o1'', t_providerId = ''p1'', t_txHash = h,
                t_network = TESTNET, t_chainId = Some ''314159'', t_fromAddress = None,
                t_toAddress = None, t_gasLimit = None, t_gasPrice = None, t_gasUsed = None,
                t_value = None, t_data = None, t_nonce = None, t_status = st,
                t_statusMessage = None, t_confirmations = 0, t_retryCount = n, t_maxRetries = 3,
                t_lastRetryAt = None, t_blockNumber = None, t_blockHash = None,
                t_rawResponse = None, t_submittedAt = None, t_confirmedAt = None \<rparr>"

definition ex_world :: "order list \<Rightarrow> payment list \<Rightarrow> blockchain_transaction list \<Rightarrow> world" where
  "ex_world os ps ts = \<lparr> users = [ex_user], providers = [ex_provider], plans = [ex_plan],
                        orders = os, payments = ps, transactions = ts, adapterCalls = [],
                        stripeCalls = [], pollers = [], allocations = [] \<rparr>"

text \<open>Adapters for the scenarios: one whose submission is refused with \<open>out of funds\<close>
  (scenario 3), one whose submission throws, and one whose status probe answers
  \<^verbatim>\<open>CONFIRMED\<close> with six confirmations (scenario 1).\<close>

definition ex_refused :: tx_result where
  "ex_refused = \<lparr> r_success = False, r_txHash = None, r_status = TX_FAILED, r_fromAddress = None,
                  r_toAddress = None, r_gasLimit = None, r_gasPrice = None, r_value = None,
                  r_data = None, r_nonce = None, r_storageId = None, r_storageEndpoint = None,
                  r_storageMetadata = None, r_error = Some ''out of funds'', r_rawResponse = None \<rparr>"

definition ex_confirmed :: status_result where
  "ex_confirmed = \<lparr> s_status = TX_CONFIRMED, s_confirmations = 6, s_blockNumber = Some 100,
                    s_blockHash = Some ''0xB10C'', s_gasUsed = Some ''21000'', s_error = None \<rparr>"

definition ex_adapter_refusing :: adapter where
  "ex_adapter_refusing = \<lparr> a_slug = ''filecoin'',
       a_executeStorageTransaction = (\<lambda>p. Inr ex_refused),
       a_checkTransactionStatus = (\<lambda>h. Inr ex_confirmed) \<rparr>"

definition ex_adapter_throwing :: adapter where
  "ex_adapter_throwing = \<lparr> a_slug = ''filecoin'',
       a_executeStorageTransaction =
         (\<lambda>p. Inl (Exn ProviderError ''[filecoin] Provider adapter not initialized'')),
       a_checkTransactionStatus = (\<lambda>h. Inr ex_confirmed) \<rparr>"

definition ex_registry :: "adapter \<Rightarrow> registry" where
  "ex_registry ad = (\<lambda>slug. if slug = ''filecoin'' then Some ad else None)"

definition ex_no_registry :: registry where
  "ex_no_registry = (\<lambda>slug. None)"

text \<open>Scenario 3: the paid order before the allocation, the state after the adapter has
  refused the submission, and the state after the first retry.\<close>

definition ex_paid :: world where
  "ex_paid = ex_world [ex_order PAYMENT_COMPLETED] [ex_payment PAY_SUCCEEDED (Some ''cs_1'')] []"

definition ex_scenario3 :: world where
  "ex_scenario3 =
     (ex_world [(ex_order BLOCKCHAIN_FAILED)\<lparr>o_statusMessage := Some ''out of funds''\<rparr>]
        [ex_payment PAY_SUCCEEDED (Some ''cs_1'')]
        [(ex_tx TX_FAILED None 0)\<lparr>t_statusMessage := Some ''out of funds''\<rparr>])
       \<lparr>adapterCalls := [(''filecoin'', storageTransactionParams (ex_order PAYMENT_COMPLETED) ex_plan ex_user)]\<rparr>"

definition ex_retrying :: world where
  "ex_retrying =
     ex_scenario3\<lparr>transactions :=
       [(ex_tx TX_RETRYING None 1)\<lparr>t_statusMessage := Some ''out of funds'', t_lastRetryAt := Some 5\<rparr>]\<rparr>"

text \<open>The processor's objects of the scenarios: the checkout session of order \<open>o1\<close>, a
  client that accepts the signature \<open>good\<close> and knows no session, and a Filecoin adapter over
  a node that answers with a given receipt and block number.\<close>

definition ex_session :: checkout_session where
  "ex_session = \<lparr> cs_id = ''cs_1'', cs_orderId = Some ''o1'', cs_paymentId = Some ''pay1'',
                  cs_payment_intent = Some ''pi_1'', cs_customer = Some ''cus_1'',
                  cs_amount_total = Some 99 \<rparr>"

definition ex_stripe :: "stripe_event \<Rightarrow> stripe_api" where
  "ex_stripe ev =
     \<lparr> st_sessionsRetrieve = (\<lambda>sid. Inl (Exn StripeError (''No such checkout.session: '' @ sid))),
       st_customersCreate = (\<lambda>req. Inr ''cus_1''),
       st_sessionsCreate = (\<lambda>req. Inr \<lparr> ss_id = ''cs_1'', ss_url = Some ''https://checkout.example/cs_1'' \<rparr>),
       st_constructEvent =
         (\<lambda>payload signature.
            if signature = ''good'' then Inr ev
            else Inl (Exn StripeSignatureVerificationError
                        ''No signatures found matching the expected signature for payload'')) \<rparr>"




text \<open>Scenario 6: the order awaiting payment, the state after \<^verbatim>\<open>cancelOrder\<close>, and the
  state after a \<^verbatim>\<open>checkout.session.completed\<close> handled at clock readings 10 and 11 on an
  order row \<open>ord\<close>.\<close>

definition ex_pending :: world where
  "ex_pending = ex_world [ex_order PENDING_PAYMENT] [ex_payment PAY_PENDING (Some ''cs_1'')] []"

definition ex_cancelled :: world where
  "ex_cancelled =
     ex_world [(ex_order CANCELLED)\<lparr>o_statusMessage := Some ''Cancelled by user''\<rparr>]
       [ex_payment PAY_PENDING (Some ''cs_1'')] []"

definition ex_completed :: "order \<Rightarrow> world" where
  "ex_completed ord =
     (ex_world [ord\<lparr>o_status := PAYMENT_COMPLETED, o_paidAt := Some 11\<rparr>]
        [completedPayment ex_session 10 (ex_payment PAY_PENDING (Some ''cs_1''))] [])
       \<lparr>allocations := [''o1'']\<rparr>"

text \<open>A checkout request repeating the key \<open>k1\<close> of order \<open>o1\<close>, the values generated
  for it, a processor client that returns the stored session as expired (without a URL),
  and, for scenario 1, the order with its submitted transaction and a probe at clock
  readings 5000--5002 that is answered \<^verbatim>\<open>CONFIRMED\<close>.\<close>

definition ex_params :: checkout_params where
  "ex_params = \<lparr> cp_userId = ''u1'', cp_planId = ''fil-starter-1gb'',
                 cp_successUrl = ''https://app.example/orders/success'',
                 cp_cancelUrl = ''https://app.example/orders/cancel'',
                 cp_idempotencyKey = Some ''k1'' \<rparr>"

definition ex_generated :: generated where
  "ex_generated = \<lparr> gen_orderId = ''o2'', gen_paymentId = ''pay2'', gen_orderNumber = ''ORD-2'',
                    gen_orderKey = ''idem_2'', gen_paymentKey = ''idem_3'', gen_now = 1000 \<rparr>"

definition ex_stripe_expired :: stripe_api where
  "ex_stripe_expired =
     (ex_stripe (OtherEvent ''ping''))
       \<lparr> st_sessionsRetrieve := (\<lambda>sid. Inr \<lparr> ss_id = sid, ss_url = None \<rparr>) \<rparr>"








lemmas ex_defs = ex_paid_def ex_world_def ex_order_def ex_payment_def ex_tx_def ex_user_def ex_provider_def
  ex_plan_def ex_refused_def ex_adapter_refusing_def ex_adapter_throwing_def ex_registry_def
  ex_no_registry_def ex_confirmed_def

lemmas orchestrator_defs = processOrder_def processOrder_try_def processOrder_dispatch_def
  processOrder_rejected_def processOrder_submitted_def order_update_def transaction_update_def
  transaction_create_def newTransaction_def storageTransactionParams_def getAdapter_def
  retryTransaction_def Let_def

lemmas webhook_defs = handleWebhook_def handleCheckoutCompleted_def handleCheckoutExpired_def
  payment_update_def order_update_def intentTaken_def completedPayment_def webhookRoute_def
  cancelOrder_def recordNotFound_def uniqueViolation_def

lemmas ex_webhook_defs = ex_pending_def ex_cancelled_def ex_completed_def ex_session_def ex_stripe_def

lemmas checkout_defs = createCheckoutSession_def createCheckoutSession_try_def findExistingCheckout_def
  createCheckout_new_def ensureCustomer_def createOrderAndPayment_def sessionTaken_def
  payment_update_def uniqueViolation_def Let_def

section \<open>Properties of the allocation orchestrator\<close>

lemma find_Some_pred: "find P xs = Some x \<Longrightarrow> P x \<and> x \<in> set xs"
  by (induction xs) (auto split: if_splits)

lemma update_row_None: "find P xs = None \<Longrightarrow> update_row P f xs = None"
  by (induction xs) (auto split: if_splits)

lemma update_row_Some:
  assumes "find P xs = Some x" and "\<And>y. P (f y) = P y"
  shows "\<exists>ys. update_row P f xs = Some ys \<and> find P ys = Some (f x)"
  using assms(1)
proof (induction xs)
  case Nil
  then show ?case by simp
next
  case (Cons a xs)
  show ?case
  proof (cases "P a")
    case True
    with Cons.prems assms(2) show ?thesis by simp
  next
    case False
    with Cons.prems have "find P xs = Some x" by simp
    from Cons.IH [OF this] obtain ys where "update_row P f xs = Some ys" "find P ys = Some (f x)"
      by blast
    with False show ?thesis by simp
  qed
qed

lemma find_snoc:
  "find P xs = None \<Longrightarrow> find P (xs @ [x]) = (if P x then Some x else None)"
  by (induction xs) (auto split: if_splits)

lemma update_row_snoc:
  "find P xs = None \<Longrightarrow> P x \<Longrightarrow> update_row P f (xs @ [x]) = Some (xs @ [f x])"
  by (induction xs) (auto split: if_splits)

lemma order_update_found:
  assumes "find (\<lambda>r. o_id r = i) (orders w) = Some x" and "\<And>r. o_id (f r) = o_id r"
  obtains os where "order_update i f w = Inr (w\<lparr>orders := os\<rparr>)"
    and "find (\<lambda>r. o_id r = i) os = Some (f x)"
proof -
  from update_row_Some [of "\<lambda>r. o_id r = i" "orders w" x f] assms
  obtain os where "update_row (\<lambda>r. o_id r = i) f (orders w) = Some os"
    "find (\<lambda>r. o_id r = i) os = Some (f x)" by auto
  then show ?thesis using that by (simp add: order_update_def)
qed

lemma transaction_update_last:
  assumes "transactions w = ts @ [row]" "find (\<lambda>t. t_id t = i) ts = None" "t_id row = i"
  shows "transaction_update i f w = Inr (w\<lparr>transactions := ts @ [f row]\<rparr>)"
  using assms by (simp add: transaction_update_def update_row_snoc)

lemma processOrder_rejected_ok:
  assumes "transactions w = ts @ [row]" "find (\<lambda>t. t_id t = txId) ts = None" "t_id row = txId"
    and "find (\<lambda>r. o_id r = orderId) (orders w) = Some x"
  shows "\<exists>os. processOrder_rejected result txId orderId w =
           (Inr (errorResult ''TRANSACTION_FAILED'' (or_else (r_error result) ''Transaction failed'')),
            w\<lparr>transactions := ts @ [row\<lparr> t_status := TX_FAILED,
                 t_statusMessage := Some (or_else (r_error result) ''Transaction failed'') \<rparr>],
              orders := os\<rparr>)
         \<and> find (\<lambda>r. o_id r = orderId) os =
             Some (x\<lparr> o_status := BLOCKCHAIN_FAILED,
                      o_statusMessage := Some (or_else (r_error result) ''Blockchain transaction failed'') \<rparr>)"
proof -
  let ?f = "\<lambda>t. t\<lparr> t_status := TX_FAILED,
                 t_statusMessage := Some (or_else (r_error result) ''Transaction failed'') \<rparr>"
  let ?g = "\<lambda>r. r\<lparr> o_status := BLOCKCHAIN_FAILED,
                      o_statusMessage := Some (or_else (r_error result) ''Blockchain transaction failed'') \<rparr>"
  let ?w1 = "w\<lparr>transactions := ts @ [?f row]\<rparr>"
  have t: "transaction_update txId ?f w = Inr ?w1"
    using assms(1-3) by (rule transaction_update_last)
  have "find (\<lambda>r. o_id r = orderId) (orders ?w1) = Some x" using assms(4) by simp
  then obtain os where o: "order_update orderId ?g ?w1 = Inr (?w1\<lparr>orders := os\<rparr>)"
    and f: "find (\<lambda>r. o_id r = orderId) os = Some (?g x)"
    by (rule order_update_found [where f = ?g]) simp
  show ?thesis
    using t o f by (auto simp add: processOrder_rejected_def intro!: exI [of _ os])
qed


lemma find_id_eq: "find (\<lambda>r. o_id r = i) xs = Some x \<Longrightarrow> o_id x = i"
  by (drule find_Some_pred) simp

lemma dispatch_reaches_adapter:
  assumes ord: "find (\<lambda>r. o_id r = o_id ord) (orders w) = Some ord"
    and ad: "reg (pr_slug pr) = Some ad"
    and fresh: "find (\<lambda>t. t_id t = newTxId) (transactions w) = None"
  shows "\<exists>os. find (\<lambda>r. o_id r = o_id ord) os = Some (ord\<lparr>o_status := BLOCKCHAIN_PROCESSING\<rparr>)
      \<and> processOrder_dispatch reg newTxId now ord (Some pr) (Some pl) (Some us) w =
          (let row = newTransaction newTxId (o_id ord) (o_providerId ord) (pr_network pr) (pr_chainId pr) TX_PENDING;
               w4 = w\<lparr> transactions := transactions w @ [row], orders := os,
                        adapterCalls := adapterCalls w @ [(a_slug ad, storageTransactionParams ord pl us)] \<rparr>
           in case a_executeStorageTransaction ad (storageTransactionParams ord pl us) of
                Inl e \<Rightarrow> (Inl e, w4)
              | Inr result \<Rightarrow>
                  if r_success result \<and> truthy (r_txHash result)
                  then processOrder_submitted ad result now newTxId (o_id ord) w4
                  else processOrder_rejected result newTxId (o_id ord) w4)"
proof -
  let ?f = "\<lambda>r. r\<lparr>o_status := BLOCKCHAIN_PENDING\<rparr>"
  let ?g = "\<lambda>r. r\<lparr>o_status := BLOCKCHAIN_PROCESSING\<rparr>"
  let ?row = "newTransaction newTxId (o_id ord) (o_providerId ord) (pr_network pr) (pr_chainId pr) TX_PENDING"
  from ord obtain os1 where u1: "order_update (o_id ord) ?f w = Inr (w\<lparr>orders := os1\<rparr>)"
    and f1: "find (\<lambda>r. o_id r = o_id ord) os1 = Some (?f ord)"
    by (rule order_update_found [where f = ?f]) simp
  let ?w1 = "w\<lparr>orders := os1\<rparr>"
  have c: "transaction_create newTxId (o_id ord) (o_providerId ord) (pr_network pr) (pr_chainId pr)
             TX_PENDING ?w1 = Inr (?row, ?w1\<lparr>transactions := transactions w @ [?row]\<rparr>)"
    using fresh by (simp add: transaction_create_def Let_def)
  let ?w2 = "?w1\<lparr>transactions := transactions w @ [?row]\<rparr>"
  have "find (\<lambda>r. o_id r = o_id ord) (orders ?w2) = Some (?f ord)" using f1 by simp
  then obtain os where u2: "order_update (o_id ord) ?g ?w2 = Inr (?w2\<lparr>orders := os\<rparr>)"
    and f2: "find (\<lambda>r. o_id r = o_id ord) os = Some (?g (?f ord))"
    by (rule order_update_found [where f = ?g]) simp
  have id: "t_id ?row = newTxId" by (simp add: newTransaction_def)
  show ?thesis
    using u1 c u2 f2 ad id
    by (intro exI [of _ os]) (simp add: processOrder_dispatch_def getAdapter_def Let_def split: sum.split)
qed

lemma no_live_transaction:
  "\<forall>tx \<in> set ts. t_orderId tx = orderId \<longrightarrow> t_status tx = TX_FAILED \<Longrightarrow>
     find (\<lambda>tx. t_status tx \<noteq> TX_FAILED) (filter (\<lambda>tx. t_orderId tx = orderId) ts) = None"
  by (auto simp: find_None_iff)

lemma processOrder_rejected_atomic:
  "fst (processOrder_rejected result txId orderId w0) = Inl e \<Longrightarrow>
     snd (processOrder_rejected result txId orderId w0) = w0"
  by (auto simp: processOrder_rejected_def split: sum.splits)

text \<open>
  Claim C1. For an order that exists, \<^verbatim>\<open>processOrder\<close> returns \<^verbatim>\<open>INVALID_ORDER_STATUS\<close>
  whenever the order's status is not \<^verbatim>\<open>PAYMENT_COMPLETED\<close>; and when the status is
  \<^verbatim>\<open>PAYMENT_COMPLETED\<close> and some transaction of the order has a status other than
  \<^verbatim>\<open>FAILED\<close>, it returns the id of such a transaction of that order as a success. In both
  cases the state comes back as it was: no transaction row is created, the order is not
  changed, and the adapter is not invoked.
\<close>

theorem processOrder_guards:
  assumes "find (\<lambda>r. o_id r = orderId) (orders w) = Some ord"
  shows "(o_status ord \<noteq> PAYMENT_COMPLETED \<longrightarrow>
            processOrder reg newTxId now orderId w =
              (Inr (errorResult ''INVALID_ORDER_STATUS''
                      (''Order status is '' @ OrderStatus_name (o_status ord)
                         @ '', expected PAYMENT_COMPLETED'')), w))
       \<and> (o_status ord = PAYMENT_COMPLETED
            \<and> (\<exists>tx \<in> set (transactions w). t_orderId tx = orderId \<and> t_status tx \<noteq> TX_FAILED) \<longrightarrow>
            (\<exists>tx' \<in> set (transactions w).
                t_orderId tx' = orderId \<and> t_status tx' \<noteq> TX_FAILED \<and>
                processOrder reg newTxId now orderId w = (Inr (successResult (t_id tx')), w)))"
proof (intro conjI impI)
  assume "o_status ord \<noteq> PAYMENT_COMPLETED"
  with assms show "processOrder reg newTxId now orderId w =
      (Inr (errorResult ''INVALID_ORDER_STATUS''
              (''Order status is '' @ OrderStatus_name (o_status ord)
                 @ '', expected PAYMENT_COMPLETED'')), w)"
    by (simp add: processOrder_def processOrder_try_def)
next
  assume h: "o_status ord = PAYMENT_COMPLETED
     \<and> (\<exists>tx \<in> set (transactions w). t_orderId tx = orderId \<and> t_status tx \<noteq> TX_FAILED)"
  let ?own = "filter (\<lambda>tx. t_orderId tx = orderId) (transactions w)"
  from h have "find (\<lambda>tx. t_status tx \<noteq> TX_FAILED) ?own \<noteq> None"
    by (auto simp: find_None_iff)
  then obtain ex where ex: "find (\<lambda>tx. t_status tx \<noteq> TX_FAILED) ?own = Some ex"
    by blast
  from find_Some_pred [OF ex]
  have "ex \<in> set (transactions w)" "t_orderId ex = orderId" "t_status ex \<noteq> TX_FAILED"
    by auto
  moreover have "processOrder reg newTxId now orderId w = (Inr (successResult (t_id ex)), w)"
    using assms h ex by (simp add: processOrder_def processOrder_try_def)
  ultimately show "\<exists>tx' \<in> set (transactions w).
      t_orderId tx' = orderId \<and> t_status tx' \<noteq> TX_FAILED \<and>
      processOrder reg newTxId now orderId w = (Inr (successResult (t_id tx')), w)"
    by blast
qed

theorem processOrder_guards_witness:
  "processOrder ex_no_registry ''t2'' 0 ''o1'' (ex_world [ex_order CANCELLED] [] []) =
     (Inr (errorResult ''INVALID_ORDER_STATUS'' ''Order status is CANCELLED, expected PAYMENT_COMPLETED''),
      ex_world [ex_order CANCELLED] [] [])
   \<and> processOrder ex_no_registry ''t2'' 0 ''o1''
       (ex_world [ex_order PAYMENT_COMPLETED] [] [ex_tx TX_SUBMITTED (Some ''0xDEAD'') 0]) =
     (Inr (successResult ''t1''),
      ex_world [ex_order PAYMENT_COMPLETED] [] [ex_tx TX_SUBMITTED (Some ''0xDEAD'') 0])"
proof
  have f: "find (\<lambda>r. o_id r = ''o1'') (orders (ex_world [ex_order CANCELLED] [] []))
             = Some (ex_order CANCELLED)"
    by (simp add: ex_world_def ex_order_def)
  from processOrder_guards [OF f, of ex_no_registry "''t2''" 0]
  show "processOrder ex_no_registry ''t2'' 0 ''o1'' (ex_world [ex_order CANCELLED] [] []) =
     (Inr (errorResult ''INVALID_ORDER_STATUS'' ''Order status is CANCELLED, expected PAYMENT_COMPLETED''),
      ex_world [ex_order CANCELLED] [] [])"
    by (simp add: ex_order_def)
next
  let ?w = "ex_world [ex_order PAYMENT_COMPLETED] [] [ex_tx TX_SUBMITTED (Some ''0xDEAD'') 0]"
  have f: "find (\<lambda>r. o_id r = ''o1'') (orders ?w) = Some (ex_order PAYMENT_COMPLETED)"
    by (simp add: ex_world_def ex_order_def)
  from processOrder_guards [OF f, of ex_no_registry "''t2''" 0]
  show "processOrder ex_no_registry ''t2'' 0 ''o1'' ?w = (Inr (successResult ''t1''), ?w)"
    by (simp add: ex_order_def ex_world_def ex_tx_def)
qed

text \<open>
  Claim C7. Let the order be in \<^verbatim>\<open>PAYMENT_COMPLETED\<close> with no transaction other than
  \<^verbatim>\<open>FAILED\<close> ones, its provider, plan and user rows present, an adapter registered for
  the provider's slug and the key of the new row unused. When
  \<^verbatim>\<open>executeStorageTransaction\<close> returns a result that is not successful,
  \<^verbatim>\<open>processOrder\<close> returns the error \<^verbatim>\<open>TRANSACTION_FAILED\<close>; the transaction row it
  created is \<^verbatim>\<open>FAILED\<close> and carries the adapter's error message (\<open>Transaction failed\<close>
  when the adapter gave none), and the order is \<^verbatim>\<open>BLOCKCHAIN_FAILED\<close>. The adapter was
  called once. The two updates form one store transaction: whenever that block throws, it
  leaves the state as it found it.
\<close>

theorem processOrder_adapter_refusal:
  assumes ord: "find (\<lambda>r. o_id r = orderId) (orders w) = Some ord"
    and st: "o_status ord = PAYMENT_COMPLETED"
    and notx: "\<forall>tx \<in> set (transactions w). t_orderId tx = orderId \<longrightarrow> t_status tx = TX_FAILED"
    and prov: "find (\<lambda>p. pr_id p = o_providerId ord) (providers w) = Some pr"
    and plan: "find (\<lambda>p. pl_id p = o_planId ord) (plans w) = Some pl"
    and usr: "find (\<lambda>u. u_id u = o_userId ord) (users w) = Some us"
    and ad: "reg (pr_slug pr) = Some ad"
    and fresh: "find (\<lambda>t. t_id t = newTxId) (transactions w) = None"
    and res: "a_executeStorageTransaction ad (storageTransactionParams ord pl us) = Inr result"
    and fail: "\<not> r_success result"
  shows "(\<exists>w'. processOrder reg newTxId now orderId w =
             (Inr (errorResult ''TRANSACTION_FAILED'' (or_else (r_error result) ''Transaction failed'')), w')
           \<and> transactions w' = transactions w @
               [(newTransaction newTxId orderId (o_providerId ord) (pr_network pr) (pr_chainId pr) TX_PENDING)
                  \<lparr> t_status := TX_FAILED,
                    t_statusMessage := Some (or_else (r_error result) ''Transaction failed'') \<rparr>]
           \<and> find (\<lambda>r. o_id r = orderId) (orders w') =
               Some (ord\<lparr> o_status := BLOCKCHAIN_FAILED,
                         o_statusMessage := Some (or_else (r_error result) ''Blockchain transaction failed'') \<rparr>)
           \<and> adapterCalls w' = adapterCalls w @ [(a_slug ad, storageTransactionParams ord pl us)])
       \<and> (\<forall>txId oid w0 e. fst (processOrder_rejected result txId oid w0) = Inl e \<longrightarrow>
             snd (processOrder_rejected result txId oid w0) = w0)"
proof (intro conjI allI impI)
  have oid: "o_id ord = orderId" using ord by (rule find_id_eq)
  let ?row = "newTransaction newTxId (o_id ord) (o_providerId ord) (pr_network pr) (pr_chainId pr) TX_PENDING"
  let ?ps = "storageTransactionParams ord pl us"
  from ord oid have ord': "find (\<lambda>r. o_id r = o_id ord) (orders w) = Some ord" by simp
  note dispatch_reaches_adapter
         [where reg = reg and ord = ord and w = w and pr = pr and ad = ad
            and newTxId = newTxId and now = now and pl = pl and us = us]
  from this [OF ord' ad fresh]
  obtain os where f: "find (\<lambda>r. o_id r = o_id ord) os = Some (ord\<lparr>o_status := BLOCKCHAIN_PROCESSING\<rparr>)"
    and d: "processOrder_dispatch reg newTxId now ord (Some pr) (Some pl) (Some us) w =
             processOrder_rejected result newTxId (o_id ord)
               (w\<lparr> transactions := transactions w @ [?row], orders := os,
                    adapterCalls := adapterCalls w @ [(a_slug ad, ?ps)] \<rparr>)"
    using res fail by (auto simp: Let_def)
  let ?w4 = "w\<lparr> transactions := transactions w @ [?row], orders := os,
                 adapterCalls := adapterCalls w @ [(a_slug ad, ?ps)] \<rparr>"
  have "\<exists>os'. processOrder_rejected result newTxId (o_id ord) ?w4 =
           (Inr (errorResult ''TRANSACTION_FAILED'' (or_else (r_error result) ''Transaction failed'')),
            ?w4\<lparr>transactions := transactions w @ [?row\<lparr> t_status := TX_FAILED,
                 t_statusMessage := Some (or_else (r_error result) ''Transaction failed'') \<rparr>],
              orders := os'\<rparr>)
         \<and> find (\<lambda>r. o_id r = o_id ord) os' =
             Some (ord\<lparr>o_status := BLOCKCHAIN_PROCESSING\<rparr>
                     \<lparr> o_status := BLOCKCHAIN_FAILED,
                      o_statusMessage := Some (or_else (r_error result) ''Blockchain transaction failed'') \<rparr>)"
    using fresh f by (intro processOrder_rejected_ok) (simp_all add: newTransaction_def)
  then obtain os' where
    r: "processOrder_rejected result newTxId (o_id ord) ?w4 =
           (Inr (errorResult ''TRANSACTION_FAILED'' (or_else (r_error result) ''Transaction failed'')),
            ?w4\<lparr>transactions := transactions w @ [?row\<lparr> t_status := TX_FAILED,
                 t_statusMessage := Some (or_else (r_error result) ''Transaction failed'') \<rparr>],
              orders := os'\<rparr>)"
    and f': "find (\<lambda>r. o_id r = o_id ord) os' =
             Some (ord\<lparr> o_status := BLOCKCHAIN_FAILED,
                      o_statusMessage := Some (or_else (r_error result) ''Blockchain transaction failed'') \<rparr>)"
    by auto
  have "processOrder reg newTxId now orderId w =
          (Inr (errorResult ''TRANSACTION_FAILED'' (or_else (r_error result) ''Transaction failed'')),
            ?w4\<lparr>transactions := transactions w @ [?row\<lparr> t_status := TX_FAILED,
                 t_statusMessage := Some (or_else (r_error result) ''Transaction failed'') \<rparr>],
              orders := os'\<rparr>)"
    using ord st prov plan usr d r no_live_transaction [OF notx]
    by (simp add: processOrder_def processOrder_try_def)
  then show "\<exists>w'. processOrder reg newTxId now orderId w =
             (Inr (errorResult ''TRANSACTION_FAILED'' (or_else (r_error result) ''Transaction failed'')), w')
           \<and> transactions w' = transactions w @
               [(newTransaction newTxId orderId (o_providerId ord) (pr_network pr) (pr_chainId pr) TX_PENDING)
                  \<lparr> t_status := TX_FAILED,
                    t_statusMessage := Some (or_else (r_error result) ''Transaction failed'') \<rparr>]
           \<and> find (\<lambda>r. o_id r = orderId) (orders w') =
               Some (ord\<lparr> o_status := BLOCKCHAIN_FAILED,
                         o_statusMessage := Some (or_else (r_error result) ''Blockchain transaction failed'') \<rparr>)
           \<and> adapterCalls w' = adapterCalls w @ [(a_slug ad, storageTransactionParams ord pl us)]"
    using f' oid by simp
next
  fix txId oid w0 e
  assume "fst (processOrder_rejected result txId oid w0) = Inl e"
  then show "snd (processOrder_rejected result txId oid w0) = w0"
    by (rule processOrder_rejected_atomic)
qed

theorem processOrder_adapter_refusal_witness:
  "(\<exists>w'. processOrder (ex_registry ex_adapter_refusing) ''t1'' 0 ''o1'' ex_paid =
            (Inr (errorResult ''TRANSACTION_FAILED'' ''out of funds''), w')
        \<and> transactions w' = [(ex_tx TX_FAILED None 0)\<lparr>t_statusMessage := Some ''out of funds''\<rparr>]
        \<and> find (\<lambda>r. o_id r = ''o1'') (orders w') =
            Some ((ex_order BLOCKCHAIN_FAILED)\<lparr>o_statusMessage := Some ''out of funds''\<rparr>))
   \<and> snd (processOrder_rejected ex_refused ''t1'' ''o9'' (ex_world [] [] [ex_tx TX_PENDING None 0]))
       = ex_world [] [] [ex_tx TX_PENDING None 0]"
proof -
  let ?W = "ex_world [] [] [ex_tx TX_PENDING None 0]"
  have h: "find (\<lambda>r. o_id r = ''o1'') (orders ex_paid) = Some (ex_order PAYMENT_COMPLETED)"
    "o_status (ex_order PAYMENT_COMPLETED) = PAYMENT_COMPLETED"
    "\<forall>tx \<in> set (transactions ex_paid). t_orderId tx = ''o1'' \<longrightarrow> t_status tx = TX_FAILED"
    "find (\<lambda>p. pr_id p = o_providerId (ex_order PAYMENT_COMPLETED)) (providers ex_paid) = Some ex_provider"
    "find (\<lambda>p. pl_id p = o_planId (ex_order PAYMENT_COMPLETED)) (plans ex_paid) = Some ex_plan"
    "find (\<lambda>u. u_id u = o_userId (ex_order PAYMENT_COMPLETED)) (users ex_paid) = Some ex_user"
    "ex_registry ex_adapter_refusing (pr_slug ex_provider) = Some ex_adapter_refusing"
    "find (\<lambda>t. t_id t = ''t1'') (transactions ex_paid) = None"
    "a_executeStorageTransaction ex_adapter_refusing
       (storageTransactionParams (ex_order PAYMENT_COMPLETED) ex_plan ex_user) = Inr ex_refused"
    "\<not> r_success ex_refused"
    by (simp_all add: ex_defs)
  note th = processOrder_adapter_refusal
    [where reg = "ex_registry ex_adapter_refusing" and w = ex_paid and orderId = "''o1''"
       and ord = "ex_order PAYMENT_COMPLETED" and pr = ex_provider and pl = ex_plan
       and us = ex_user and ad = ex_adapter_refusing and newTxId = "''t1''"
       and result = ex_refused and now = 0, OF h]
  from th obtain w' where
    "processOrder (ex_registry ex_adapter_refusing) ''t1'' 0 ''o1'' ex_paid =
       (Inr (errorResult ''TRANSACTION_FAILED'' (or_else (r_error ex_refused) ''Transaction failed'')), w')"
    "transactions w' = transactions ex_paid @
       [(newTransaction ''t1'' ''o1'' (o_providerId (ex_order PAYMENT_COMPLETED))
           (pr_network ex_provider) (pr_chainId ex_provider) TX_PENDING)
          \<lparr> t_status := TX_FAILED,
            t_statusMessage := Some (or_else (r_error ex_refused) ''Transaction failed'') \<rparr>]"
    "find (\<lambda>r. o_id r = ''o1'') (orders w') =
       Some ((ex_order PAYMENT_COMPLETED)\<lparr> o_status := BLOCKCHAIN_FAILED,
               o_statusMessage := Some (or_else (r_error ex_refused) ''Blockchain transaction failed'') \<rparr>)"
    by blast
  then have a: "\<exists>w'. processOrder (ex_registry ex_adapter_refusing) ''t1'' 0 ''o1'' ex_paid =
            (Inr (errorResult ''TRANSACTION_FAILED'' ''out of funds''), w')
        \<and> transactions w' = [(ex_tx TX_FAILED None 0)\<lparr>t_statusMessage := Some ''out of funds''\<rparr>]
        \<and> find (\<lambda>r. o_id r = ''o1'') (orders w') =
            Some ((ex_order BLOCKCHAIN_FAILED)\<lparr>o_statusMessage := Some ''out of funds''\<rparr>)"
    by (intro exI [of _ w'])
       (simp add: ex_refused_def ex_paid_def ex_world_def ex_order_def ex_tx_def ex_provider_def
          newTransaction_def)
  have "fst (processOrder_rejected ex_refused ''t1'' ''o9'' ?W) = Inl recordNotFound"
    by (simp add: processOrder_rejected_def transaction_update_def order_update_def ex_defs)
  with th have b: "snd (processOrder_rejected ex_refused ''t1'' ''o9'' ?W) = ?W"
    by blast
  from a b show ?thesis ..
qed

text \<open>
  Claim C10, as amended. The adapter is looked up before the transaction row is created,
  so among the steps after the creation it is the adapter call that throws. When it does,
  \<^verbatim>\<open>processOrder\<close> returns \<^verbatim>\<open>PROCESSING_FAILED\<close>, the order is set to
  \<^verbatim>\<open>BLOCKCHAIN_FAILED\<close> with the error's message, and the created row stays
  \<^verbatim>\<open>PENDING\<close>. On the resulting state every \<^verbatim>\<open>retryTransaction\<close> of that row returns
  \<^verbatim>\<open>INVALID_STATUS\<close> and changes nothing, and a poller started for it stops at once
  without a change: the order keeps a \<^verbatim>\<open>PENDING\<close> transaction beside its
  \<^verbatim>\<open>BLOCKCHAIN_FAILED\<close> status.
\<close>

theorem processOrder_adapter_throws:
  assumes ord: "find (\<lambda>r. o_id r = orderId) (orders w) = Some ord"
    and st: "o_status ord = PAYMENT_COMPLETED"
    and notx: "\<forall>tx \<in> set (transactions w). t_orderId tx = orderId \<longrightarrow> t_status tx = TX_FAILED"
    and prov: "find (\<lambda>p. pr_id p = o_providerId ord) (providers w) = Some pr"
    and plan: "find (\<lambda>p. pl_id p = o_planId ord) (plans w) = Some pl"
    and usr: "find (\<lambda>u. u_id u = o_userId ord) (users w) = Some us"
    and ad: "reg (pr_slug pr) = Some ad"
    and fresh: "find (\<lambda>t. t_id t = newTxId) (transactions w) = None"
    and res: "a_executeStorageTransaction ad (storageTransactionParams ord pl us) = Inl err"
  shows "\<exists>w'. processOrder reg newTxId now orderId w =
             (Inr (errorResult ''PROCESSING_FAILED'' (error_message err ''Failed to process order'')), w')
           \<and> transactions w' = transactions w @
               [newTransaction newTxId orderId (o_providerId ord) (pr_network pr) (pr_chainId pr) TX_PENDING]
           \<and> find (\<lambda>r. o_id r = orderId) (orders w') =
               Some (ord\<lparr> o_status := BLOCKCHAIN_FAILED,
                         o_statusMessage := Some (error_message err ''Unknown error'') \<rparr>)
           \<and> (\<forall>reg' newId retryAt now'.
                 retryTransaction reg' newId retryAt now' newTxId w' =
                   (Inr (errorResult ''INVALID_STATUS'' ''Can only retry failed transactions''), w'))
           \<and> (\<forall>ob slug. pollIteration ob newTxId slug w' = (Stop, w'))"
proof -
  have oid: "o_id ord = orderId" using ord by (rule find_id_eq)
  let ?row = "newTransaction newTxId (o_id ord) (o_providerId ord) (pr_network pr) (pr_chainId pr) TX_PENDING"
  let ?ps = "storageTransactionParams ord pl us"
  from ord oid have ord': "find (\<lambda>r. o_id r = o_id ord) (orders w) = Some ord" by simp
  note dispatch_reaches_adapter
         [where reg = reg and ord = ord and w = w and pr = pr and ad = ad
            and newTxId = newTxId and now = now and pl = pl and us = us]
  from this [OF ord' ad fresh]
  obtain os where f: "find (\<lambda>r. o_id r = o_id ord) os = Some (ord\<lparr>o_status := BLOCKCHAIN_PROCESSING\<rparr>)"
    and d: "processOrder_dispatch reg newTxId now ord (Some pr) (Some pl) (Some us) w =
             (Inl err, w\<lparr> transactions := transactions w @ [?row], orders := os,
                    adapterCalls := adapterCalls w @ [(a_slug ad, ?ps)] \<rparr>)"
    using res by (auto simp: Let_def)
  let ?w4 = "w\<lparr> transactions := transactions w @ [?row], orders := os,
                 adapterCalls := adapterCalls w @ [(a_slug ad, ?ps)] \<rparr>"
  let ?g = "\<lambda>r. r\<lparr> o_status := BLOCKCHAIN_FAILED,
                    o_statusMessage := Some (error_message err ''Unknown error'') \<rparr>"
  have "find (\<lambda>r. o_id r = o_id ord) (orders ?w4) = Some (ord\<lparr>o_status := BLOCKCHAIN_PROCESSING\<rparr>)"
    using f by simp
  then obtain os' where u: "order_update (o_id ord) ?g ?w4 = Inr (?w4\<lparr>orders := os'\<rparr>)"
    and f': "find (\<lambda>r. o_id r = o_id ord) os' = Some (?g (ord\<lparr>o_status := BLOCKCHAIN_PROCESSING\<rparr>))"
    by (rule order_update_found [where f = ?g]) simp
  let ?w' = "?w4\<lparr>orders := os'\<rparr>"
  have p: "processOrder reg newTxId now orderId w =
          (Inr (errorResult ''PROCESSING_FAILED'' (error_message err ''Failed to process order'')), ?w')"
    using ord st prov plan usr d u oid no_live_transaction [OF notx]
    by (simp add: processOrder_def processOrder_try_def)
  have t: "find (\<lambda>t. t_id t = newTxId) (transactions ?w') = Some ?row"
    using fresh by (simp add: find_snoc newTransaction_def)
  have r: "\<forall>reg' newId retryAt now'.
                 retryTransaction reg' newId retryAt now' newTxId ?w' =
                   (Inr (errorResult ''INVALID_STATUS'' ''Can only retry failed transactions''), ?w')"
    unfolding retryTransaction_def t by (simp add: newTransaction_def)
  have q: "\<forall>ob slug. pollIteration ob newTxId slug ?w' = (Stop, ?w')"
    unfolding pollIteration_def t by (simp add: newTransaction_def)
  show ?thesis
    using p f' oid r q by (intro exI [of _ ?w']) simp
qed

theorem processOrder_adapter_throws_witness:
  "\<exists>w'. processOrder (ex_registry ex_adapter_throwing) ''t1'' 0 ''o1'' ex_paid =
            (Inr (errorResult ''PROCESSING_FAILED'' ''[filecoin] Provider adapter not initialized''), w')
        \<and> transactions w' = [ex_tx TX_PENDING None 0]
        \<and> find (\<lambda>r. o_id r = ''o1'') (orders w') =
            Some ((ex_order BLOCKCHAIN_FAILED)
                    \<lparr>o_statusMessage := Some ''[filecoin] Provider adapter not initialized''\<rparr>)
        \<and> (\<forall>reg' newId retryAt now'.
              retryTransaction reg' newId retryAt now' ''t1'' w' =
                (Inr (errorResult ''INVALID_STATUS'' ''Can only retry failed transactions''), w'))
        \<and> (\<forall>ob slug. pollIteration ob ''t1'' slug w' = (Stop, w'))"
proof -
  let ?err = "Exn ProviderError ''[filecoin] Provider adapter not initialized''"
  have h: "find (\<lambda>r. o_id r = ''o1'') (orders ex_paid) = Some (ex_order PAYMENT_COMPLETED)"
    "o_status (ex_order PAYMENT_COMPLETED) = PAYMENT_COMPLETED"
    "\<forall>tx \<in> set (transactions ex_paid). t_orderId tx = ''o1'' \<longrightarrow> t_status tx = TX_FAILED"
    "find (\<lambda>p. pr_id p = o_providerId (ex_order PAYMENT_COMPLETED)) (providers ex_paid) = Some ex_provider"
    "find (\<lambda>p. pl_id p = o_planId (ex_order PAYMENT_COMPLETED)) (plans ex_paid) = Some ex_plan"
    "find (\<lambda>u. u_id u = o_userId (ex_order PAYMENT_COMPLETED)) (users ex_paid) = Some ex_user"
    "ex_registry ex_adapter_throwing (pr_slug ex_provider) = Some ex_adapter_throwing"
    "find (\<lambda>t. t_id t = ''t1'') (transactions ex_paid) = None"
    "a_executeStorageTransaction ex_adapter_throwing
       (storageTransactionParams (ex_order PAYMENT_COMPLETED) ex_plan ex_user) = Inl ?err"
    by (simp_all add: ex_defs)
  note th = processOrder_adapter_throws
    [where reg = "ex_registry ex_adapter_throwing" and w = ex_paid and orderId = "''o1''"
       and ord = "ex_order PAYMENT_COMPLETED" and pr = ex_provider and pl = ex_plan
       and us = ex_user and ad = ex_adapter_throwing and newTxId = "''t1''"
       and err = ?err and now = 0, OF h]
  from th obtain w' where
    "processOrder (ex_registry ex_adapter_throwing) ''t1'' 0 ''o1'' ex_paid =
       (Inr (errorResult ''PROCESSING_FAILED'' (error_message ?err ''Failed to process order'')), w')"
    "transactions w' = transactions ex_paid @
       [newTransaction ''t1'' ''o1'' (o_providerId (ex_order PAYMENT_COMPLETED))
           (pr_network ex_provider) (pr_chainId ex_provider) TX_PENDING]"
    "find (\<lambda>r. o_id r = ''o1'') (orders w') =
       Some ((ex_order PAYMENT_COMPLETED)\<lparr> o_status := BLOCKCHAIN_FAILED,
               o_statusMessage := Some (error_message ?err ''Unknown error'') \<rparr>)"
    "\<forall>reg' newId retryAt now'.
        retryTransaction reg' newId retryAt now' ''t1'' w' =
          (Inr (errorResult ''INVALID_STATUS'' ''Can only retry failed transactions''), w')"
    "\<forall>ob slug. pollIteration ob ''t1'' slug w' = (Stop, w')"
    by blast
  then show ?thesis
    by (intro exI [of _ w'])
       (simp add: ex_paid_def ex_world_def ex_order_def ex_tx_def ex_provider_def newTransaction_def)
qed

text \<open>
  The claim as stated counts the adapter lookup among the steps after the creation of the
  row. With no adapter registered for the slug, the lookup throws, the order becomes
  \<^verbatim>\<open>BLOCKCHAIN_FAILED\<close> and \<^verbatim>\<open>PROCESSING_FAILED\<close> is returned, but no transaction row
  exists, so none is left \<^verbatim>\<open>PENDING\<close>.
\<close>

theorem processOrder_lookup_failure_counterexample:
  "fst (processOrder ex_no_registry ''t1'' 0 ''o1'' ex_paid) =
     Inr (errorResult ''PROCESSING_FAILED''
            (''[filecoin] Provider adapter '' @ [CHR 0x27] @ ''filecoin'' @ [CHR 0x27] @ '' not found''))
   \<and> map o_status (orders (snd (processOrder ex_no_registry ''t1'' 0 ''o1'' ex_paid))) = [BLOCKCHAIN_FAILED]
   \<and> transactions (snd (processOrder ex_no_registry ''t1'' 0 ''o1'' ex_paid)) = []"
  by (simp add: ex_defs orchestrator_defs)

text \<open>
  Claim C3, evaluated on scenario 3. The adapter refuses the submission (\<open>out of funds\<close>):
  the order is \<^verbatim>\<open>BLOCKCHAIN_FAILED\<close> and transaction \<open>t1\<close> is \<^verbatim>\<open>FAILED\<close> with
  \<open>retryCount = 0\<close> of 3. The first \<^verbatim>\<open>retryTransaction\<close> passes its guards, sets the row to
  \<^verbatim>\<open>RETRYING\<close> with \<open>retryCount = 1\<close> and re-enters \<^verbatim>\<open>processOrder\<close>, which rejects
  the order with \<^verbatim>\<open>INVALID_ORDER_STATUS\<close>, its status being \<^verbatim>\<open>BLOCKCHAIN_FAILED\<close>. The
  row is now \<^verbatim>\<open>RETRYING\<close>, so the next invocation returns \<^verbatim>\<open>INVALID_STATUS\<close> and leaves
  the state as it is; the third and the fourth invocation are that same call on that same
  state. \<^verbatim>\<open>MAX_RETRIES\<close> is not returned and \<open>retryCount\<close> stays at 1.
\<close>

theorem retryTransaction_scenario3:
  "processOrder (ex_registry ex_adapter_refusing) ''t1'' 0 ''o1'' ex_paid =
     (Inr (errorResult ''TRANSACTION_FAILED'' ''out of funds''), ex_scenario3)
   \<and> retryTransaction (ex_registry ex_adapter_refusing) ''t2'' 5 6 ''t1'' ex_scenario3 =
       (Inr (errorResult ''INVALID_ORDER_STATUS''
               ''Order status is BLOCKCHAIN_FAILED, expected PAYMENT_COMPLETED''), ex_retrying)
   \<and> retryTransaction (ex_registry ex_adapter_refusing) ''t2'' 7 8 ''t1'' ex_retrying =
       (Inr (errorResult ''INVALID_STATUS'' ''Can only retry failed transactions''), ex_retrying)
   \<and> map t_status (transactions ex_retrying) = [TX_RETRYING]
   \<and> map t_retryCount (transactions ex_retrying) = [1]
   \<and> map t_maxRetries (transactions ex_retrying) = [3]"
proof (intro conjI)
  show "processOrder (ex_registry ex_adapter_refusing) ''t1'' 0 ''o1'' ex_paid =
     (Inr (errorResult ''TRANSACTION_FAILED'' ''out of funds''), ex_scenario3)"
    by (simp add: ex_scenario3_def ex_defs orchestrator_defs)
  show "retryTransaction (ex_registry ex_adapter_refusing) ''t2'' 5 6 ''t1'' ex_scenario3 =
       (Inr (errorResult ''INVALID_ORDER_STATUS''
               ''Order status is BLOCKCHAIN_FAILED, expected PAYMENT_COMPLETED''), ex_retrying)"
    by (simp add: ex_retrying_def ex_scenario3_def ex_defs orchestrator_defs)
  show "retryTransaction (ex_registry ex_adapter_refusing) ''t2'' 7 8 ''t1'' ex_retrying =
       (Inr (errorResult ''INVALID_STATUS'' ''Can only retry failed transactions''), ex_retrying)"
    by (simp add: ex_retrying_def ex_scenario3_def ex_defs retryTransaction_def)
qed (simp_all add: ex_retrying_def ex_scenario3_def ex_defs)

section \<open>Properties of the Filecoin status probe\<close>



section \<open>Properties of the webhook ingestor\<close>

lemma update_row_the:
  assumes "find P xs = Some x" and "\<And>y. P (f y) = P y"
  shows "update_row P f xs = Some (the (update_row P f xs))"
    and "find P (the (update_row P f xs)) = Some (f x)"
  using update_row_Some [OF assms] by auto

lemma handleCheckoutCompleted_normal:
  "handleCheckoutCompleted session t1 t2 w =
     (case (cs_orderId session, cs_paymentId session) of
        (Some orderId, Some paymentId) \<Rightarrow>
          if orderId = [] \<or> paymentId = [] then (Inr (), w)
          else
            (case find (\<lambda>p. p_id p = paymentId) (payments w) of
               None \<Rightarrow> (Inl recordNotFound, w)
             | Some existingPayment \<Rightarrow>
                 if p_status existingPayment = PAY_SUCCEEDED then (Inr (), w)
                 else if intentTaken paymentId (cs_payment_intent session) w
                 then (Inl uniqueViolation, w)
                 else
                   (case find (\<lambda>r. o_id r = orderId) (orders w) of
                      None \<Rightarrow> (Inl recordNotFound, w)
                    | Some ord \<Rightarrow>
                        (Inr (),
                         w\<lparr> payments := the (update_row (\<lambda>p. p_id p = paymentId)
                                                (completedPayment session t1) (payments w)),
                            orders := the (update_row (\<lambda>r. o_id r = orderId)
                                             (\<lambda>r. r\<lparr> o_status := PAYMENT_COMPLETED, o_paidAt := Some t2 \<rparr>)
                                             (orders w)),
                            allocations := allocations w @ [orderId] \<rparr>)))
      | _ \<Rightarrow> (Inr (), w))"
proof (cases "cs_orderId session")
  case None
  then show ?thesis by (simp add: handleCheckoutCompleted_def)
next
  case (Some orderId)
  note oid = this
  show ?thesis
  proof (cases "cs_paymentId session")
    case None
    with oid show ?thesis by (simp add: handleCheckoutCompleted_def)
  next
    case (Some paymentId)
    note pid = this
    show ?thesis
    proof (cases "find (\<lambda>p. p_id p = paymentId) (payments w)")
      case None
      with oid pid show ?thesis by (simp add: handleCheckoutCompleted_def)
    next
      case (Some ep)
      note ep = this
      let ?f = "completedPayment session t1"
      have "\<exists>ps. update_row (\<lambda>p. p_id p = paymentId) ?f (payments w) = Some ps
                 \<and> find (\<lambda>p. p_id p = paymentId) ps = Some (?f ep)"
        using ep by (rule update_row_Some) (simp add: completedPayment_def)
      then obtain ps where pu: "update_row (\<lambda>p. p_id p = paymentId) ?f (payments w) = Some ps"
        by blast
      show ?thesis
      proof (cases "find (\<lambda>r. o_id r = orderId) (orders w)")
        case None
        then have "update_row (\<lambda>r. o_id r = orderId)
                     (\<lambda>r. r\<lparr> o_status := PAYMENT_COMPLETED, o_paidAt := Some t2 \<rparr>) (orders w) = None"
          by (rule update_row_None)
        with None oid pid ep pu show ?thesis
          by (simp add: handleCheckoutCompleted_def payment_update_def order_update_def
                completedPayment_def)
      next
        case (Some ord)
        then have "\<exists>os. update_row (\<lambda>r. o_id r = orderId)
                     (\<lambda>r. r\<lparr> o_status := PAYMENT_COMPLETED, o_paidAt := Some t2 \<rparr>) (orders w) = Some os
                 \<and> find (\<lambda>r. o_id r = orderId) os
                     = Some (ord\<lparr> o_status := PAYMENT_COMPLETED, o_paidAt := Some t2 \<rparr>)"
          by (rule update_row_Some) simp
        then obtain os where "update_row (\<lambda>r. o_id r = orderId)
                     (\<lambda>r. r\<lparr> o_status := PAYMENT_COMPLETED, o_paidAt := Some t2 \<rparr>) (orders w) = Some os"
          by blast
        with Some oid pid ep pu show ?thesis
          by (simp add: handleCheckoutCompleted_def payment_update_def order_update_def
                completedPayment_def)
      qed
    qed
  qed
qed

lemma handleCheckoutCompleted_noop:
  assumes "cs_paymentId session = Some paymentId"
    and "find (\<lambda>p. p_id p = paymentId) (payments w) = Some pay"
    and "p_status pay = PAY_SUCCEEDED"
  shows "handleCheckoutCompleted session t1 t2 w = (Inr (), w)"
  using assms by (simp add: handleCheckoutCompleted_def split: option.splits)

lemma handleCheckoutCompleted_stable:
  "snd (handleCheckoutCompleted session a b (snd (handleCheckoutCompleted session t1 t2 w)))
     = snd (handleCheckoutCompleted session t1 t2 w)"
proof (cases "\<exists>orderId paymentId ep ord.
         cs_orderId session = Some orderId \<and> cs_paymentId session = Some paymentId
         \<and> orderId \<noteq> [] \<and> paymentId \<noteq> []
         \<and> find (\<lambda>p. p_id p = paymentId) (payments w) = Some ep
         \<and> p_status ep \<noteq> PAY_SUCCEEDED
         \<and> \<not> intentTaken paymentId (cs_payment_intent session) w
         \<and> find (\<lambda>r. o_id r = orderId) (orders w) = Some ord")
  case True
  then obtain orderId paymentId ep ord where
    c: "cs_orderId session = Some orderId" "cs_paymentId session = Some paymentId"
       "orderId \<noteq> []" "paymentId \<noteq> []"
       "find (\<lambda>p. p_id p = paymentId) (payments w) = Some ep"
       "p_status ep \<noteq> PAY_SUCCEEDED"
       "\<not> intentTaken paymentId (cs_payment_intent session) w"
       "find (\<lambda>r. o_id r = orderId) (orders w) = Some ord"
    by blast
  let ?w' = "snd (handleCheckoutCompleted session t1 t2 w)"
  have "find (\<lambda>p. p_id p = paymentId)
          (the (update_row (\<lambda>p. p_id p = paymentId) (completedPayment session t1) (payments w)))
        = Some (completedPayment session t1 ep)"
    using c(5) by (rule update_row_the) (simp add: completedPayment_def)
  with c have "find (\<lambda>p. p_id p = paymentId) (payments ?w') = Some (completedPayment session t1 ep)"
    by (simp add: handleCheckoutCompleted_normal)
  moreover have "p_status (completedPayment session t1 ep) = PAY_SUCCEEDED"
    by (simp add: completedPayment_def)
  ultimately have "handleCheckoutCompleted session a b ?w' = (Inr (), ?w')"
    using c(2) by (rule handleCheckoutCompleted_noop [rotated])
  then show ?thesis by simp
next
  case False
  then have "\<And>x y. snd (handleCheckoutCompleted session x y w) = w"
    by (auto simp: handleCheckoutCompleted_normal split: option.splits)
  then show ?thesis by simp
qed

lemma handleWebhook_completed:
  "st_constructEvent stripe payload signature = Inr (CheckoutSessionCompleted session) \<Longrightarrow>
     snd (handleWebhook stripe payload signature a b w) = snd (handleCheckoutCompleted session a b w)"
  by (simp add: handleWebhook_def split: prod.splits sum.splits)

lemma replayWebhook_fixed:
  "(\<And>a b. snd (handleWebhook stripe payload signature a b w) = w) \<Longrightarrow>
     replayWebhook stripe payload signature ts w = w"
  by (induction ts) simp_all

text \<open>
  Claim C5. When the payment named by a \<^verbatim>\<open>checkout.session.completed\<close> event is already
  \<^verbatim>\<open>SUCCEEDED\<close>, handling the event returns the state as it was: no field of any row
  changes, no row is created and no allocation is started. Hence delivering the same signed
  completed event \<open>n \<ge> 1\<close> times, at whatever clock readings, leaves the state that the
  first delivery left.
\<close>

theorem checkout_completed_idempotent:
  "(cs_paymentId session = Some paymentId
      \<and> find (\<lambda>p. p_id p = paymentId) (payments w) = Some pay
      \<and> p_status pay = PAY_SUCCEEDED \<longrightarrow>
        handleCheckoutCompleted session t1 t2 w = (Inr (), w))
   \<and> (st_constructEvent stripe payload signature = Inr (CheckoutSessionCompleted session) \<longrightarrow>
        replayWebhook stripe payload signature (t # ts) w =
          snd (handleWebhook stripe payload signature (fst t) (snd t) w))"
proof (intro conjI impI)
  assume "cs_paymentId session = Some paymentId
      \<and> find (\<lambda>p. p_id p = paymentId) (payments w) = Some pay
      \<and> p_status pay = PAY_SUCCEEDED"
  then show "handleCheckoutCompleted session t1 t2 w = (Inr (), w)"
    by (auto intro: handleCheckoutCompleted_noop)
next
  assume ev: "st_constructEvent stripe payload signature = Inr (CheckoutSessionCompleted session)"
  let ?w' = "snd (handleWebhook stripe payload signature (fst t) (snd t) w)"
  have "\<And>a b. snd (handleWebhook stripe payload signature a b ?w') = ?w'"
    by (simp add: handleWebhook_completed [OF ev] handleCheckoutCompleted_stable)
  then have "replayWebhook stripe payload signature ts ?w' = ?w'"
    by (rule replayWebhook_fixed)
  then show "replayWebhook stripe payload signature (t # ts) w = ?w'"
    by simp
qed

theorem checkout_completed_idempotent_witness:
  "handleCheckoutCompleted ex_session 20 21 (ex_completed (ex_order PENDING_PAYMENT))
     = (Inr (), ex_completed (ex_order PENDING_PAYMENT))
   \<and> replayWebhook (ex_stripe (CheckoutSessionCompleted ex_session)) ''body'' ''good''
        [(10, 11), (20, 21), (30, 31)] ex_pending
     = ex_completed (ex_order PENDING_PAYMENT)"
proof -
  let ?stripe = "ex_stripe (CheckoutSessionCompleted ex_session)"
  let ?w = "ex_completed (ex_order PENDING_PAYMENT)"
  let ?pay = "completedPayment ex_session 10 (ex_payment PAY_PENDING (Some ''cs_1''))"
  note th = checkout_completed_idempotent
    [where session = ex_session and paymentId = "''pay1''" and w = ?w and pay = ?pay
       and ?t1.0 = 20 and ?t2.0 = 21]
  have "cs_paymentId ex_session = Some ''pay1''
      \<and> find (\<lambda>p. p_id p = ''pay1'') (payments ?w) = Some ?pay
      \<and> p_status ?pay = PAY_SUCCEEDED"
    by (simp add: ex_webhook_defs ex_defs completedPayment_def)
  with th have a: "handleCheckoutCompleted ex_session 20 21 ?w = (Inr (), ?w)"
    by blast
  note th2 = checkout_completed_idempotent
    [where session = ex_session and stripe = ?stripe and payload = "''body''"
       and signature = "''good''" and t = "(10, 11)" and ts = "[(20, 21), (30, 31)]"
       and w = ex_pending]
  have ev: "st_constructEvent ?stripe ''body'' ''good'' = Inr (CheckoutSessionCompleted ex_session)"
    by (simp add: ex_stripe_def)
  have first: "snd (handleWebhook ?stripe ''body'' ''good'' 10 11 ex_pending) = ?w"
    by (simp add: webhook_defs ex_webhook_defs ex_defs)
  from th2 ev first
  have b: "replayWebhook ?stripe ''body'' ''good'' [(10, 11), (20, 21), (30, 31)] ex_pending = ?w"
    by simp
  from a b show ?thesis ..
qed

lemma handleCheckoutCompleted_advances:
  assumes ord: "find (\<lambda>r. o_id r = orderId) (orders w) = Some ord"
    and pay: "find (\<lambda>p. p_id p = paymentId) (payments w) = Some pay"
    and meta: "cs_orderId session = Some orderId" "cs_paymentId session = Some paymentId"
      "orderId \<noteq> []" "paymentId \<noteq> []"
    and live: "p_status pay \<noteq> PAY_SUCCEEDED"
    and free: "\<not> intentTaken paymentId (cs_payment_intent session) w"
  shows "\<exists>w'. handleCheckoutCompleted session t1 t2 w = (Inr (), w')
      \<and> find (\<lambda>r. o_id r = orderId) (orders w') =
           Some (ord\<lparr>o_status := PAYMENT_COMPLETED, o_paidAt := Some t2\<rparr>)
      \<and> find (\<lambda>p. p_id p = paymentId) (payments w') = Some (completedPayment session t1 pay)
      \<and> allocations w' = allocations w @ [orderId]"
proof -
  have a: "find (\<lambda>p. p_id p = paymentId)
          (the (update_row (\<lambda>p. p_id p = paymentId) (completedPayment session t1) (payments w)))
        = Some (completedPayment session t1 pay)"
    using pay by (rule update_row_the) (simp add: completedPayment_def)
  have b: "find (\<lambda>r. o_id r = orderId)
          (the (update_row (\<lambda>r. o_id r = orderId)
                  (\<lambda>r. r\<lparr>o_status := PAYMENT_COMPLETED, o_paidAt := Some t2\<rparr>) (orders w)))
        = Some (ord\<lparr>o_status := PAYMENT_COMPLETED, o_paidAt := Some t2\<rparr>)"
    using ord by (rule update_row_the) simp
  show ?thesis
    using assms a b by (simp add: handleCheckoutCompleted_normal)
qed

text \<open>
  Claim C2, as amended. \<^verbatim>\<open>handleCheckoutCompleted\<close> reads the payment's status only: unless
  the payment is already \<^verbatim>\<open>SUCCEEDED\<close>, the event sets the payment to \<^verbatim>\<open>SUCCEEDED\<close>
  and the order to \<^verbatim>\<open>PAYMENT_COMPLETED\<close>, whatever the order's status was, and starts the
  allocation. In particular, \<^verbatim>\<open>cancelOrder\<close> moves an order from \<^verbatim>\<open>PENDING_PAYMENT\<close> to
  \<^verbatim>\<open>CANCELLED\<close> and leaves its payment untouched, and a late
  \<^verbatim>\<open>checkout.session.completed\<close> for that order then moves the order to
  \<^verbatim>\<open>PAYMENT_COMPLETED\<close>, the payment to \<^verbatim>\<open>SUCCEEDED\<close>, and starts an allocation.
\<close>

theorem late_completion_not_guarded:
  assumes ord: "find (\<lambda>r. o_id r = orderId) (orders w) = Some ord"
    and pay: "find (\<lambda>p. p_id p = paymentId) (payments w) = Some pay"
    and meta: "cs_orderId session = Some orderId" "cs_paymentId session = Some paymentId"
      "orderId \<noteq> []" "paymentId \<noteq> []"
    and live: "p_status pay \<noteq> PAY_SUCCEEDED"
    and free: "\<not> intentTaken paymentId (cs_payment_intent session) w"
  shows "(\<exists>w'. handleCheckoutCompleted session t1 t2 w = (Inr (), w')
           \<and> find (\<lambda>r. o_id r = orderId) (orders w') =
                Some (ord\<lparr>o_status := PAYMENT_COMPLETED, o_paidAt := Some t2\<rparr>)
           \<and> find (\<lambda>p. p_id p = paymentId) (payments w') = Some (completedPayment session t1 pay)
           \<and> allocations w' = allocations w @ [orderId])
       \<and> (o_status ord = PENDING_PAYMENT \<longrightarrow>
            (\<exists>w1 w2. cancelOrder orderId w =
                        (Inr (ord\<lparr>o_status := CANCELLED, o_statusMessage := Some ''Cancelled by user''\<rparr>), w1)
               \<and> payments w1 = payments w
               \<and> handleCheckoutCompleted session t1 t2 w1 = (Inr (), w2)
               \<and> find (\<lambda>r. o_id r = orderId) (orders w2) =
                    Some (ord\<lparr>o_status := PAYMENT_COMPLETED,
                              o_statusMessage := Some ''Cancelled by user'', o_paidAt := Some t2\<rparr>)
               \<and> find (\<lambda>p. p_id p = paymentId) (payments w2) = Some (completedPayment session t1 pay)
               \<and> allocations w2 = allocations w @ [orderId]))"
proof (intro conjI impI)
  show "\<exists>w'. handleCheckoutCompleted session t1 t2 w = (Inr (), w')
           \<and> find (\<lambda>r. o_id r = orderId) (orders w') =
                Some (ord\<lparr>o_status := PAYMENT_COMPLETED, o_paidAt := Some t2\<rparr>)
           \<and> find (\<lambda>p. p_id p = paymentId) (payments w') = Some (completedPayment session t1 pay)
           \<and> allocations w' = allocations w @ [orderId]"
    using assms by (rule handleCheckoutCompleted_advances)
next
  assume st: "o_status ord = PENDING_PAYMENT"
  let ?c = "\<lambda>r. r\<lparr>o_status := CANCELLED, o_statusMessage := Some ''Cancelled by user''\<rparr>"
  from ord obtain os where u: "order_update orderId ?c w = Inr (w\<lparr>orders := os\<rparr>)"
    and f: "find (\<lambda>r. o_id r = orderId) os = Some (?c ord)"
    by (rule order_update_found [where f = ?c]) simp
  let ?w1 = "w\<lparr>orders := os\<rparr>"
  have c: "cancelOrder orderId w = (Inr (?c ord), ?w1)"
    using ord st u f by (simp add: cancelOrder_def)
  have "\<exists>w'. handleCheckoutCompleted session t1 t2 ?w1 = (Inr (), w')
      \<and> find (\<lambda>r. o_id r = orderId) (orders w') =
           Some ((?c ord)\<lparr>o_status := PAYMENT_COMPLETED, o_paidAt := Some t2\<rparr>)
      \<and> find (\<lambda>p. p_id p = paymentId) (payments w') = Some (completedPayment session t1 pay)
      \<and> allocations w' = allocations ?w1 @ [orderId]"
    using f pay meta live free
    by (intro handleCheckoutCompleted_advances) (simp_all add: intentTaken_def)
  then obtain w2 where "handleCheckoutCompleted session t1 t2 ?w1 = (Inr (), w2)"
    "find (\<lambda>r. o_id r = orderId) (orders w2) =
           Some ((?c ord)\<lparr>o_status := PAYMENT_COMPLETED, o_paidAt := Some t2\<rparr>)"
    "find (\<lambda>p. p_id p = paymentId) (payments w2) = Some (completedPayment session t1 pay)"
    "allocations w2 = allocations ?w1 @ [orderId]"
    by blast
  with c show "\<exists>w1 w2. cancelOrder orderId w =
                        (Inr (ord\<lparr>o_status := CANCELLED, o_statusMessage := Some ''Cancelled by user''\<rparr>), w1)
               \<and> payments w1 = payments w
               \<and> handleCheckoutCompleted session t1 t2 w1 = (Inr (), w2)
               \<and> find (\<lambda>r. o_id r = orderId) (orders w2) =
                    Some (ord\<lparr>o_status := PAYMENT_COMPLETED,
                              o_statusMessage := Some ''Cancelled by user'', o_paidAt := Some t2\<rparr>)
               \<and> find (\<lambda>p. p_id p = paymentId) (payments w2) = Some (completedPayment session t1 pay)
               \<and> allocations w2 = allocations w @ [orderId]"
    by (intro exI [of _ ?w1] exI [of _ w2]) simp
qed

theorem late_completion_not_guarded_witness:
  "\<exists>w1 w2. cancelOrder ''o1'' ex_pending =
              (Inr ((ex_order CANCELLED)\<lparr>o_statusMessage := Some ''Cancelled by user''\<rparr>), w1)
     \<and> payments w1 = payments ex_pending
     \<and> handleCheckoutCompleted ex_session 10 11 w1 = (Inr (), w2)
     \<and> find (\<lambda>r. o_id r = ''o1'') (orders w2) =
          Some ((ex_order PAYMENT_COMPLETED)
                  \<lparr>o_statusMessage := Some ''Cancelled by user'', o_paidAt := Some 11\<rparr>)
     \<and> find (\<lambda>p. p_id p = ''pay1'') (payments w2) =
          Some (completedPayment ex_session 10 (ex_payment PAY_PENDING (Some ''cs_1'')))
     \<and> allocations w2 = [''o1'']"
proof -
  have h: "find (\<lambda>r. o_id r = ''o1'') (orders ex_pending) = Some (ex_order PENDING_PAYMENT)"
    "find (\<lambda>p. p_id p = ''pay1'') (payments ex_pending) = Some (ex_payment PAY_PENDING (Some ''cs_1''))"
    "cs_orderId ex_session = Some ''o1''" "cs_paymentId ex_session = Some ''pay1''"
    "''o1'' \<noteq> []" "''pay1'' \<noteq> []"
    "p_status (ex_payment PAY_PENDING (Some ''cs_1'')) \<noteq> PAY_SUCCEEDED"
    "\<not> intentTaken ''pay1'' (cs_payment_intent ex_session) ex_pending"
    by (simp_all add: ex_webhook_defs ex_defs intentTaken_def)
  note th = late_completion_not_guarded
    [where w = ex_pending and orderId = "''o1''" and paymentId = "''pay1''"
       and ord = "ex_order PENDING_PAYMENT" and pay = "ex_payment PAY_PENDING (Some ''cs_1'')"
       and session = ex_session and ?t1.0 = 10 and ?t2.0 = 11, OF h]
  have "o_status (ex_order PENDING_PAYMENT) = PENDING_PAYMENT" by (simp add: ex_order_def)
  with th obtain w1 w2 where
    "cancelOrder ''o1'' ex_pending =
       (Inr ((ex_order PENDING_PAYMENT)\<lparr>o_status := CANCELLED, o_statusMessage := Some ''Cancelled by user''\<rparr>), w1)"
    "payments w1 = payments ex_pending"
    "handleCheckoutCompleted ex_session 10 11 w1 = (Inr (), w2)"
    "find (\<lambda>r. o_id r = ''o1'') (orders w2) =
       Some ((ex_order PENDING_PAYMENT)\<lparr>o_status := PAYMENT_COMPLETED,
               o_statusMessage := Some ''Cancelled by user'', o_paidAt := Some 11\<rparr>)"
    "find (\<lambda>p. p_id p = ''pay1'') (payments w2) =
       Some (completedPayment ex_session 10 (ex_payment PAY_PENDING (Some ''cs_1'')))"
    "allocations w2 = allocations ex_pending @ [''o1'']"
    by blast
  then show ?thesis
    by (intro exI [of _ w1] exI [of _ w2]) (simp add: ex_order_def ex_pending_def ex_world_def)
qed

text \<open>
  The claim as stated fails on scenario 6: after the buyer's cancel, the late completed event
  does not leave the order \<^verbatim>\<open>CANCELLED\<close>; the order ends \<^verbatim>\<open>PAYMENT_COMPLETED\<close>, the
  payment \<^verbatim>\<open>SUCCEEDED\<close>, and the allocation of \<open>o1\<close> is started.
\<close>

theorem cancel_then_complete_counterexample:
  "cancelOrder ''o1'' ex_pending =
     (Inr ((ex_order CANCELLED)\<lparr>o_statusMessage := Some ''Cancelled by user''\<rparr>), ex_cancelled)
   \<and> handleCheckoutCompleted ex_session 10 11 ex_cancelled =
       (Inr (), ex_completed ((ex_order CANCELLED)\<lparr>o_statusMessage := Some ''Cancelled by user''\<rparr>))
   \<and> map o_status (orders (ex_completed ((ex_order CANCELLED)\<lparr>o_statusMessage := Some ''Cancelled by user''\<rparr>)))
       = [PAYMENT_COMPLETED]
   \<and> map p_status (payments (ex_completed ((ex_order CANCELLED)\<lparr>o_statusMessage := Some ''Cancelled by user''\<rparr>)))
       = [PAY_SUCCEEDED]
   \<and> allocations (ex_completed ((ex_order CANCELLED)\<lparr>o_statusMessage := Some ''Cancelled by user''\<rparr>))
       = [''o1'']"
  by (simp add: webhook_defs ex_webhook_defs ex_defs)

text \<open>
  Claim C8, evaluated. A correctly signed \<^verbatim>\<open>checkout.session.completed\<close> event names a
  payment that has no row, so the handler's update throws after the signature has been
  validated. \<^verbatim>\<open>handleWebhook\<close> catches the error and returns \<^verbatim>\<open>WEBHOOK_FAILED\<close>, and
  the route answers every unsuccessful result with status 400 and the error message: the
  same status as for a forged signature, and no \<^verbatim>\<open>{received: true}\<close>.
\<close>

theorem webhookRoute_internal_failure:
  "webhookRoute (ex_stripe (CheckoutSessionCompleted ex_session)) (Some ''good'') ''body'' 10 11
       (ex_world [] [] [])
     = (\<lparr> res_status = 400, res_body = JObject [(''error'', JString ''Record to update not found.'')] \<rparr>,
        ex_world [] [] [])
   \<and> handleWebhook (ex_stripe (CheckoutSessionCompleted ex_session)) ''body'' ''good'' 10 11
       (ex_world [] [] [])
     = (errorResult ''WEBHOOK_FAILED'' ''Record to update not found.'', ex_world [] [] [])
   \<and> webhookRoute (ex_stripe (CheckoutSessionCompleted ex_session)) (Some ''forged'') ''body'' 10 11
       (ex_world [] [] [])
     = (\<lparr> res_status = 400, res_body = JObject [(''error'', JString ''Invalid webhook signature'')] \<rparr>,
        ex_world [] [] [])"
  by (simp add: webhook_defs ex_webhook_defs ex_defs)

section \<open>Properties of the checkout initiator\<close>

text \<open>
  Claim C4, as amended. Let the request carry an idempotency key borne by an existing order
  whose first payment holds a session id. \<^verbatim>\<open>createCheckoutSession\<close> then asks the
  processor for that session. When the processor returns it (an expired one too; its missing
  URL is reported as the empty string), the result is the session's id and URL with the ids
  of the existing order and payment. When the processor throws, the result is an error:
  \<^verbatim>\<open>STRIPE_ERROR\<close> for a processor error, \<^verbatim>\<open>CHECKOUT_FAILED\<close> otherwise. In both cases
  no order and no payment is created or changed: the state differs only by the logged
  retrieve call.
\<close>

theorem createCheckoutSession_existing_key:
  assumes key: "cp_idempotencyKey params = Some k" "k \<noteq> []"
    and ord: "find (\<lambda>r. o_idempotencyKey r = Some k) (orders w) = Some existingOrder"
    and pay: "filter (\<lambda>p. p_orderId p = o_id existingOrder) (payments w) = pay # rest"
    and sid: "p_stripeSessionId pay = Some sid" "sid \<noteq> []"
  shows "(\<forall>session. st_sessionsRetrieve stripe sid = Inr session \<longrightarrow>
            createCheckoutSession stripe gen params w =
              (successResult \<lparr> cr_sessionId = ss_id session,
                               cr_sessionUrl = or_else (ss_url session) [],
                               cr_orderId = o_id existingOrder,
                               cr_paymentId = p_id pay \<rparr>,
               w\<lparr>stripeCalls := stripeCalls w @ [SessionsRetrieve sid]\<rparr>))
       \<and> (\<forall>e. st_sessionsRetrieve stripe sid = Inl e \<longrightarrow>
            createCheckoutSession stripe gen params w =
              ((if isStripeError e then errorResult ''STRIPE_ERROR'' (exn_message e)
                else errorResult ''CHECKOUT_FAILED''
                       (error_message e ''Failed to create checkout session'')),
               w\<lparr>stripeCalls := stripeCalls w @ [SessionsRetrieve sid]\<rparr>))"
proof -
  have "findExistingCheckout (cp_idempotencyKey params) w = Some (existingOrder, pay, sid)"
    using assms by (simp add: findExistingCheckout_def)
  then show ?thesis
    by (simp add: createCheckoutSession_def createCheckoutSession_try_def Let_def)
qed

theorem createCheckoutSession_existing_key_witness:
  "createCheckoutSession ex_stripe_expired ex_generated ex_params ex_pending =
     (successResult \<lparr> cr_sessionId = ''cs_1'', cr_sessionUrl = [], cr_orderId = ''o1'',
                      cr_paymentId = ''pay1'' \<rparr>,
      ex_pending\<lparr>stripeCalls := [SessionsRetrieve ''cs_1'']\<rparr>)
   \<and> createCheckoutSession (ex_stripe (OtherEvent ''ping'')) ex_generated ex_params ex_pending =
     (errorResult ''STRIPE_ERROR'' ''No such checkout.session: cs_1'',
      ex_pending\<lparr>stripeCalls := [SessionsRetrieve ''cs_1'']\<rparr>)"
proof -
  have h: "cp_idempotencyKey ex_params = Some ''k1''" "''k1'' \<noteq> []"
    "find (\<lambda>r. o_idempotencyKey r = Some ''k1'') (orders ex_pending) = Some (ex_order PENDING_PAYMENT)"
    "filter (\<lambda>p. p_orderId p = o_id (ex_order PENDING_PAYMENT)) (payments ex_pending)
       = ex_payment PAY_PENDING (Some ''cs_1'') # []"
    "p_stripeSessionId (ex_payment PAY_PENDING (Some ''cs_1'')) = Some ''cs_1''" "''cs_1'' \<noteq> []"
    by (simp_all add: ex_params_def ex_pending_def ex_world_def ex_order_def ex_payment_def)
  note th = createCheckoutSession_existing_key
    [where params = ex_params and k = "''k1''" and w = ex_pending
       and existingOrder = "ex_order PENDING_PAYMENT" and pay = "ex_payment PAY_PENDING (Some ''cs_1'')"
       and rest = "[]" and sid = "''cs_1''" and gen = ex_generated, OF h]
  have a: "st_sessionsRetrieve ex_stripe_expired ''cs_1'' = Inr \<lparr> ss_id = ''cs_1'', ss_url = None \<rparr>"
    by (simp add: ex_stripe_expired_def)
  have b: "st_sessionsRetrieve (ex_stripe (OtherEvent ''ping'')) ''cs_1''
             = Inl (Exn StripeError ''No such checkout.session: cs_1'')"
    by (simp add: ex_stripe_def)
  from th [of ex_stripe_expired] a
  have 1: "createCheckoutSession ex_stripe_expired ex_generated ex_params ex_pending =
     (successResult \<lparr> cr_sessionId = ''cs_1'', cr_sessionUrl = [], cr_orderId = ''o1'',
                      cr_paymentId = ''pay1'' \<rparr>,
      ex_pending\<lparr>stripeCalls := [SessionsRetrieve ''cs_1'']\<rparr>)"
    by (simp add: ex_order_def ex_payment_def ex_pending_def ex_world_def)
  from th [of "ex_stripe (OtherEvent ''ping'')"] b
  have 2: "createCheckoutSession (ex_stripe (OtherEvent ''ping'')) ex_generated ex_params ex_pending =
     (errorResult ''STRIPE_ERROR'' ''No such checkout.session: cs_1'',
      ex_pending\<lparr>stripeCalls := [SessionsRetrieve ''cs_1'']\<rparr>)"
    by (simp add: ex_pending_def ex_world_def)
  from 1 2 show ?thesis ..
qed

text \<open>
  The claim as stated has the existing order returned also when the session is absent. For a
  session that the processor does not know, the retrieve call throws and the caller receives
  \<^verbatim>\<open>STRIPE_ERROR\<close> without the order.
\<close>

theorem createCheckoutSession_absent_session_counterexample:
  "createCheckoutSession (ex_stripe (OtherEvent ''ping'')) ex_generated ex_params ex_pending =
     (errorResult ''STRIPE_ERROR'' ''No such checkout.session: cs_1'',
      ex_pending\<lparr>stripeCalls := [SessionsRetrieve ''cs_1'']\<rparr>)"
  by (simp add: checkout_defs ex_params_def ex_generated_def ex_webhook_defs ex_defs)

text \<open>When the payment of the existing order holds no session id, the call goes on to
  create a new order under the same key, which the unique index refuses.\<close>

lemma createCheckoutSession_no_session_id:
  "createCheckoutSession (ex_stripe (OtherEvent ''ping'')) ex_generated ex_params
       (ex_world [ex_order PENDING_PAYMENT] [ex_payment PAY_PENDING None] []) =
     (errorResult ''CHECKOUT_FAILED'' ''Unique constraint failed'',
      ex_world [ex_order PENDING_PAYMENT] [ex_payment PAY_PENDING None] [])"
  by (simp add: checkout_defs ex_params_def ex_generated_def ex_webhook_defs ex_defs)

section \<open>Properties of the confirmation poller\<close>


lemma P5_frame [simp]:
  "P5 (w\<lparr>users := us\<rparr>) = P5 w"
  "P5 (w\<lparr>payments := ps\<rparr>) = P5 w"
  "P5 (w\<lparr>transactions := ts\<rparr>) = P5 w"
  "P5 (w\<lparr>adapterCalls := ac\<rparr>) = P5 w"
  "P5 (w\<lparr>stripeCalls := sc\<rparr>) = P5 w"
  "P5 (w\<lparr>pollers := po\<rparr>) = P5 w"
  "P5 (w\<lparr>allocations := al\<rparr>) = P5 w"
  by (simp_all add: P5_def)
























































end
